theory Spec2Isabelle
  imports Complex_Main "HOL-Library.AList"
begin

section \<open>Values shared with the Go standard library\<close>

text \<open>
  A Go \<^verbatim>\<open>interface{}\<close> filled by \<^verbatim>\<open>encoding/json\<close> holds one of the JSON values below;
  \<^verbatim>\<open>map[string]interface{}\<close> is a list of key/value pairs.
\<close>

datatype json =
    JNull
  | JBool bool
  | JNumber real
  | JString string
  | JArray "json list"
  | JObject "(string \<times> json) list"

type_synonym jmap = "(string \<times> json) list"

text \<open>
  A Go \<^verbatim>\<open>error\<close> is either a value handed up by library code (\<^verbatim>\<open>net/http\<close>, \<^verbatim>\<open>net/url\<close>,
  \<^verbatim>\<open>io\<close>, \<^verbatim>\<open>encoding/json\<close>), kept by its message, or the result of
  \<^verbatim>\<open>fmt.Errorf(format, args...)\<close>, kept as the format with its arguments, or the
  \<^verbatim>\<open>*url.Error{Op, URL, Err}\<close> in which \<^verbatim>\<open>http.Client.Do\<close> wraps every error it returns.
\<close>

datatype error =
    LibError string
  | Errorf string "fmtarg list"
  | url_Error string string error
and fmtarg =
    ArgInt int
  | ArgString string
  | ArgError error
  | ArgMap jmap

text \<open>Entries written through the global \<^verbatim>\<open>zerolog\<close> logger.\<close>

datatype level = InfoLevel | ErrorLevel

datatype log_entry =
    Msg level "error option" string
  | Msgf level string "fmtarg list"

subsection \<open>\<^verbatim>\<open>net/http\<close>\<close>

abbreviation StatusOK :: int where "StatusOK \<equiv> 200"
abbreviation StatusCreated :: int where "StatusCreated \<equiv> 201"
abbreviation StatusNoContent :: int where "StatusNoContent \<equiv> 204"
abbreviation StatusBadRequest :: int where "StatusBadRequest \<equiv> 400"
abbreviation StatusUnauthorized :: int where "StatusUnauthorized \<equiv> 401"
abbreviation StatusNotFound :: int where "StatusNotFound \<equiv> 404"
abbreviation StatusInternalServerError :: int where "StatusInternalServerError \<equiv> 500"

type_synonym header = "(string \<times> string list) list"

definition Header_Set :: "string \<Rightarrow> string \<Rightarrow> header \<Rightarrow> header" where
  "Header_Set key v h = AList.update key [v] h"

definition Header_Add :: "string \<Rightarrow> string \<Rightarrow> header \<Rightarrow> header" where
  "Header_Add key v h =
     AList.update key (case map_of h key of None \<Rightarrow> [v] | Some vs \<Rightarrow> vs @ [v]) h"

definition Header_Get :: "string \<Rightarrow> header \<Rightarrow> string" where
  "Header_Get key h = (case map_of h key of Some (v # vs) \<Rightarrow> v | _ \<Rightarrow> [])"

text \<open>
  A request is a mutable object. \<open>ReqBody\<close> is what is left to read of its \<^verbatim>\<open>Body\<close>, a
  \<^verbatim>\<open>bytes.Buffer\<close> here (\<open>None\<close> for no body); \<open>ContentLength\<close> and \<open>GetBody\<close> are what
  \<^verbatim>\<open>http.NewRequest\<close> records of the buffer when the request is built: its length and a copy
  of its bytes.
\<close>

record request =
  Method :: string
  URL :: string
  Header :: header
  ReqBody :: "string option"
  ContentLength :: int
  GetBody :: "string option"

text \<open>
  A response body is a stream: \<^verbatim>\<open>ioutil.ReadAll\<close> returns the bytes it could read and the
  error that stopped it, if any.
\<close>

record ReadCloser =
  Data :: string
  Err :: "error option"

definition ReadAll :: "ReadCloser \<Rightarrow> string \<times> error option" where
  "ReadAll b = (Data b, Err b)"

record response =
  StatusCode :: int
  Body :: ReadCloser

text \<open>
  The world outside the process: the requests sent so far, in order, and the log.
  An \<^verbatim>\<open>http.Client\<close> is its transport, which answers a request knowing everything
  that was sent before it.
\<close>

record world =
  Sent :: "request list"
  Log :: "log_entry list"

type_synonym RoundTripper = "request list \<Rightarrow> request \<Rightarrow> error + response"

record Client =
  Transport :: RoundTripper

text \<open>
  \<^verbatim>\<open>urlErrorOp\<close> of \<^verbatim>\<open>net/http\<close>: the method with its first letter kept and the rest in lower
  case, when the rest is printable ASCII.
\<close>

definition ascii_lower :: "char \<Rightarrow> char" where
  "ascii_lower c =
     (case map_of (zip ''ABCDEFGHIJKLMNOPQRSTUVWXYZ'' ''abcdefghijklmnopqrstuvwxyz'') c of
        Some l \<Rightarrow> l
      | None \<Rightarrow> c)"

definition urlErrorOp :: "string \<Rightarrow> string" where
  "urlErrorOp method =
     (case method of
        [] \<Rightarrow> ''Get''
      | c # cs \<Rightarrow>
          if list_all (\<lambda>x. 32 \<le> (of_char x :: nat) \<and> (of_char x :: nat) \<le> 126) cs
          then c # map ascii_lower cs else method)"

text \<open>
  A send reads the body of the request: afterwards the buffer behind \<^verbatim>\<open>req.Body\<close> is empty,
  and nothing rewinds it. The request keeps its \<open>ContentLength\<close> and its \<open>GetBody\<close>.
\<close>

definition consumed :: "request \<Rightarrow> request" where
  "consumed req = req\<lparr>ReqBody := map_option (\<lambda>b. []) (ReqBody req)\<rparr>"

text \<open>
  \<^verbatim>\<open>client.Do(req)\<close>: the transport answers the request as it is handed over, the request
  joins the requests sent, and its body is left consumed. An error of the transport comes
  back wrapped in a \<^verbatim>\<open>*url.Error\<close>. The result is the answer, the request as the send leaves
  it, and the world.
\<close>

definition Do :: "Client \<Rightarrow> request \<Rightarrow> world \<Rightarrow> (error + response) \<times> request \<times> world" where
  "Do c req w =
     (case Transport c (Sent w) req of
        Inl err \<Rightarrow> (Inl (url_Error (urlErrorOp (Method req)) (URL req) err), consumed req,
                    w\<lparr>Sent := Sent w @ [req]\<rparr>)
      | Inr resp \<Rightarrow> (Inr resp, consumed req, w\<lparr>Sent := Sent w @ [req]\<rparr>))"

definition log_write :: "log_entry \<Rightarrow> world \<Rightarrow> world" where
  "log_write entry w = w\<lparr>Log := Log w @ [entry]\<rparr>"

section \<open>Package \<^verbatim>\<open>models\<close> and package \<^verbatim>\<open>config\<close>\<close>

text \<open>
  Modelled from the spec: the declarations of \<^verbatim>\<open>models.User\<close> and \<^verbatim>\<open>models.Group\<close> are not
  among the source files. A user is an identifier, a username, an email, a first name and a
  last name; a group is an identifier and a name; all are Go strings, so an identifier that
  was not given is the empty string.
\<close>

record User =
  ID :: string
  Username :: string
  Email :: string
  FirstName :: string
  LastName :: string

record Group =
  ID :: string
  Name :: string

record GroupWithUsers =
  Group :: Group
  Users :: "User list"

record Config =
  KeycloakURL :: string
  KeycloakRealm :: string
  KeycloakUsername :: string
  KeycloakPassword :: string

section \<open>Library calls whose result the program only inspects\<close>

text \<open>
  What \<^verbatim>\<open>net/url\<close>, \<^verbatim>\<open>encoding/json\<close> and the network do is not part of the program: they are
  parameters of every operation. \<open>url_Parse\<close> is the check \<^verbatim>\<open>http.NewRequest\<close> makes on its
  URL; the \<open>Unmarshal_*\<close> fields are \<^verbatim>\<open>json.Unmarshal\<close> on a byte slice and the
  \<open>Decode_*\<close> fields are \<^verbatim>\<open>json.NewDecoder(body).Decode\<close> on a stream, each at the Go
  type it is called at.
\<close>

record lib =
  DefaultTransport :: RoundTripper
  url_Parse :: "string \<Rightarrow> error option"
  Marshal_User :: "User \<Rightarrow> error + string"
  Marshal_Group :: "Group \<Rightarrow> error + string"
  Unmarshal_map :: "string \<Rightarrow> error + jmap"
  Unmarshal_Users :: "string \<Rightarrow> error + User list"
  Unmarshal_Groups :: "string \<Rightarrow> error + Group list"
  Decode_map :: "ReadCloser \<Rightarrow> error + jmap"
  Decode_User :: "ReadCloser \<Rightarrow> error + User"
  Decode_Group :: "ReadCloser \<Rightarrow> error + Group"
  ShouldBindJSON_User :: "string \<Rightarrow> error + User"
  ShouldBindJSON_Group :: "string \<Rightarrow> error + Group"

definition NewRequest :: "lib \<Rightarrow> string \<Rightarrow> string \<Rightarrow> string option \<Rightarrow> error + request" where
  "NewRequest L method url body =
     (case url_Parse L url of
        Some err \<Rightarrow> Inl err
      | None \<Rightarrow>
          Inr \<lparr>Method = method, URL = url, Header = [], ReqBody = body,
               ContentLength = (case body of None \<Rightarrow> 0 | Some b \<Rightarrow> int (length b)),
               GetBody = body\<rparr>)"

section \<open>Package \<^verbatim>\<open>services\<close>: the Keycloak service\<close>

record KeycloakService =
  config :: Config
  client :: Client
  token :: string

text \<open>
  An operation on a \<^verbatim>\<open>*KeycloakService\<close> takes the service and the world and returns its
  result with both as it leaves them.
\<close>

type_synonym 'a io = "KeycloakService \<Rightarrow> world \<Rightarrow> (error + 'a) \<times> KeycloakService \<times> world"

text \<open>
  \<^verbatim>\<open>getAdminToken\<close> returns the pair \<^verbatim>\<open>(string, error)\<close> as Go does: the string is empty on
  every path that returns an error.
\<close>

definition getAdminToken :: "lib \<Rightarrow> KeycloakService \<Rightarrow> world \<Rightarrow> (string \<times> error option) \<times> world" where
  "getAdminToken L k w =
     (let url = KeycloakURL (config k) @ ''/realms/'' @ KeycloakRealm (config k)
                  @ ''/protocol/openid-connect/token'';
          data = ''grant_type=password&client_id=admin-cli&username='' @ KeycloakUsername (config k)
                  @ ''&password='' @ KeycloakPassword (config k)
      in case NewRequest L ''POST'' url (Some data) of
           Inl err \<Rightarrow> (([], Some err), w)
         | Inr req0 \<Rightarrow>
             let req = req0\<lparr>Header := Header_Add ''Content-Type''
                                ''application/x-www-form-urlencoded'' (Header req0)\<rparr>
             in case Do (client k) req w of
                  (Inl err, _, w1) \<Rightarrow> (([], Some err), w1)
                | (Inr resp, _, w1) \<Rightarrow>
                    if StatusCode resp \<noteq> StatusOK then
                      (let (bodyBytes, _) = ReadAll (Body resp)
                       in (([], Some (Errorf ''failed to get token, status: %d, response: %s %s''
                                  [ArgInt (StatusCode resp), ArgString bodyBytes,
                                   ArgString (KeycloakUsername (config k))])), w1))
                    else
                      (case Decode_map L (Body resp) of
                         Inl err \<Rightarrow> (([], Some err), w1)
                       | Inr result \<Rightarrow>
                           (case map_of result ''access_token'' of
                              Some (JString tok) \<Rightarrow> ((tok, None), w1)
                            | _ \<Rightarrow> (([], Some (Errorf ''access token not found'' [])), w1))))"


text \<open>
  \<^verbatim>\<open>doRequest\<close> works on one request object throughout: the retry sets the header again on
  the request as the first send left it and hands that same object to the client.
\<close>

definition doRequest :: "lib \<Rightarrow> request \<Rightarrow> response io" where
  "doRequest L req k w =
     (let req1 = req\<lparr>Header := Header_Set ''Authorization'' (''Bearer '' @ token k) (Header req)\<rparr>
      in case Do (client k) req1 w of
           (Inl err, req2, w1) \<Rightarrow> (Inl err, k, w1)
         | (Inr resp, req2, w1) \<Rightarrow>
             if StatusCode resp = StatusUnauthorized then
               (let w2 = log_write (Msg InfoLevel None
                           ''Token expired. Refreshing token and retrying request.'') w1
                in case getAdminToken L k w2 of
                     ((newToken, Some err), w3) \<Rightarrow>
                       (Inl (Errorf ''failed to refresh token: %v'' [ArgError err]), k, w3)
                   | ((newToken, None), w3) \<Rightarrow>
                       let k' = k\<lparr>token := newToken\<rparr>;
                           req3 = req2\<lparr>Header := Header_Set ''Authorization''
                                             (''Bearer '' @ token k') (Header req2)\<rparr>
                       in case Do (client k') req3 w3 of (r, req4, w4) \<Rightarrow> (r, k', w4))
             else (Inr resp, k, w1))"

definition SetToken :: "string \<Rightarrow> KeycloakService \<Rightarrow> KeycloakService" where
  "SetToken t k = k\<lparr>token := t\<rparr>"

definition SetClient :: "Client \<Rightarrow> KeycloakService \<Rightarrow> KeycloakService" where
  "SetClient c k = k\<lparr>client := c\<rparr>"

subsection \<open>User operations\<close>

text \<open>
  An operation that returns only a Go \<^verbatim>\<open>error\<close> returns \<open>None\<close> for \<^verbatim>\<open>nil\<close>.
  \<^verbatim>\<open>fmt.Sprintf\<close> with \<^verbatim>\<open>%s\<close> verbs on strings is concatenation.
\<close>

definition ListUsers :: "lib \<Rightarrow> User list io" where
  "ListUsers L k w =
     (let url = KeycloakURL (config k) @ ''/admin/realms/'' @ KeycloakRealm (config k) @ ''/users''
      in case NewRequest L ''GET'' url None of
           Inl err \<Rightarrow> (Inl err, k, w)
         | Inr req \<Rightarrow>
             (case doRequest L req k w of
                (Inl err, k1, w1) \<Rightarrow> (Inl err, k1, w1)
              | (Inr resp, k1, w1) \<Rightarrow>
                  (case ReadAll (Body resp) of
                     (body, Some err) \<Rightarrow> (Inl err, k1, w1)
                   | (body, None) \<Rightarrow>
                       if StatusCode resp \<noteq> StatusOK then
                         (case Unmarshal_map L body of
                            Inl err \<Rightarrow>
                              (Inl (Errorf ''failed to list users: status %d, unable to parse error''
                                      [ArgInt (StatusCode resp)]), k1, w1)
                          | Inr errResp \<Rightarrow>
                              (Inl (Errorf ''failed to list users: %v'' [ArgMap errResp]), k1, w1))
                       else
                         (case Unmarshal_Users L body of
                            Inl err \<Rightarrow>
                              (Inl (Errorf ''json: %v'' [ArgError err]), k1,
                               log_write (Msgf ErrorLevel
                                 ''Unable to decode response into []models.User: %s''
                                 [ArgString body]) w1)
                          | Inr users \<Rightarrow> (Inr users, k1, w1)))))"

definition CreateUser :: "lib \<Rightarrow> User \<Rightarrow> User io" where
  "CreateUser L user k w =
     (let url = KeycloakURL (config k) @ ''/admin/realms/'' @ KeycloakRealm (config k) @ ''/users''
      in case Marshal_User L user of
           Inl err \<Rightarrow> (Inl err, k, w)
         | Inr payload \<Rightarrow>
             (case NewRequest L ''POST'' url (Some payload) of
                Inl err \<Rightarrow> (Inl err, k, w)
              | Inr req0 \<Rightarrow>
                  let req = req0\<lparr>Header := Header_Add ''Content-Type'' ''application/json''
                                     (Header req0)\<rparr>
                  in case doRequest L req k w of
                       (Inl err, k1, w1) \<Rightarrow> (Inl err, k1, w1)
                     | (Inr resp, k1, w1) \<Rightarrow>
                         if StatusCode resp \<noteq> StatusCreated \<and> StatusCode resp \<noteq> StatusNoContent then
                           (let (bodyBytes, _) = ReadAll (Body resp)
                            in (Inl (Errorf ''failed to create user, status: %d, response: %s''
                                       [ArgInt (StatusCode resp), ArgString bodyBytes]), k1, w1))
                         else (Inr user, k1, w1)))"

definition GetUser :: "lib \<Rightarrow> string \<Rightarrow> User io" where
  "GetUser L id' k w =
     (let url = KeycloakURL (config k) @ ''/admin/realms/'' @ KeycloakRealm (config k) @ ''/users/'' @ id'
      in case NewRequest L ''GET'' url None of
           Inl err \<Rightarrow> (Inl err, k, w)
         | Inr req \<Rightarrow>
             (case doRequest L req k w of
                (Inl err, k1, w1) \<Rightarrow> (Inl err, k1, w1)
              | (Inr resp, k1, w1) \<Rightarrow>
                  if StatusCode resp \<noteq> StatusOK then
                    (Inl (Errorf ''user not found, status: %d'' [ArgInt (StatusCode resp)]), k1, w1)
                  else
                    (case Decode_User L (Body resp) of
                       Inl err \<Rightarrow> (Inl err, k1, w1)
                     | Inr user \<Rightarrow> (Inr user, k1, w1))))"

definition SearchUserByEmail :: "lib \<Rightarrow> string \<Rightarrow> User list io" where
  "SearchUserByEmail L email k w =
     (let url = KeycloakURL (config k) @ ''/admin/realms/'' @ KeycloakRealm (config k) @ ''/users?email='' @ email
      in case NewRequest L ''GET'' url None of
           Inl err \<Rightarrow> (Inl err, k, w)
         | Inr req \<Rightarrow>
             (case doRequest L req k w of
                (Inl err, k1, w1) \<Rightarrow> (Inl err, k1, w1)
              | (Inr resp, k1, w1) \<Rightarrow>
                  (case ReadAll (Body resp) of
                     (body, Some err) \<Rightarrow> (Inl err, k1, w1)
                   | (body, None) \<Rightarrow>
                       if StatusCode resp \<noteq> StatusOK then
                         (case Unmarshal_map L body of
                            Inl err \<Rightarrow>
                              (Inl (Errorf ''failed to search users: status %d, unable to parse error''
                                      [ArgInt (StatusCode resp)]), k1, w1)
                          | Inr errResp \<Rightarrow>
                              (Inl (Errorf ''failed to search users: %v'' [ArgMap errResp]), k1, w1))
                       else
                         (case Unmarshal_Users L body of
                            Inl err \<Rightarrow>
                              (Inl (Errorf ''json: %v'' [ArgError err]), k1,
                               log_write (Msgf ErrorLevel
                                 ''Unable to decode response into []models.User: %s''
                                 [ArgString body]) w1)
                          | Inr users \<Rightarrow> (Inr users, k1, w1)))))"

definition UpdateUser :: "lib \<Rightarrow> string \<Rightarrow> User \<Rightarrow> User io" where
  "UpdateUser L id' user k w =
     (let url = KeycloakURL (config k) @ ''/admin/realms/'' @ KeycloakRealm (config k) @ ''/users/'' @ id'
      in case Marshal_User L user of
           Inl err \<Rightarrow> (Inl err, k, w)
         | Inr payload \<Rightarrow>
             (case NewRequest L ''PUT'' url (Some payload) of
                Inl err \<Rightarrow> (Inl err, k, w)
              | Inr req0 \<Rightarrow>
                  let req = req0\<lparr>Header := Header_Add ''Content-Type'' ''application/json''
                                     (Header req0)\<rparr>
                  in case doRequest L req k w of
                       (Inl err, k1, w1) \<Rightarrow> (Inl err, k1, w1)
                     | (Inr resp, k1, w1) \<Rightarrow>
                         if StatusCode resp \<noteq> StatusNoContent then
                           (let (bodyBytes, _) = ReadAll (Body resp)
                            in (Inl (Errorf ''failed to update user, status: %d, response: %s''
                                       [ArgInt (StatusCode resp), ArgString bodyBytes]), k1, w1))
                         else (Inr user, k1, w1)))"

definition DeleteUser :: "lib \<Rightarrow> string \<Rightarrow> KeycloakService \<Rightarrow> world
    \<Rightarrow> error option \<times> KeycloakService \<times> world" where
  "DeleteUser L id' k w =
     (let url = KeycloakURL (config k) @ ''/admin/realms/'' @ KeycloakRealm (config k) @ ''/users/'' @ id'
      in case NewRequest L ''DELETE'' url None of
           Inl err \<Rightarrow> (Some err, k, w)
         | Inr req \<Rightarrow>
             (case doRequest L req k w of
                (Inl err, k1, w1) \<Rightarrow> (Some err, k1, w1)
              | (Inr resp, k1, w1) \<Rightarrow>
                  if StatusCode resp \<noteq> StatusNoContent then
                    (let (bodyBytes, _) = ReadAll (Body resp)
                     in (Some (Errorf ''failed to delete user, status: %d, response: %s''
                                 [ArgInt (StatusCode resp), ArgString bodyBytes]), k1, w1))
                  else (None, k1, w1)))"

subsection \<open>Group operations\<close>

definition ListGroups :: "lib \<Rightarrow> Group list io" where
  "ListGroups L k w =
     (let url = KeycloakURL (config k) @ ''/admin/realms/'' @ KeycloakRealm (config k) @ ''/groups''
      in case NewRequest L ''GET'' url None of
           Inl err \<Rightarrow> (Inl err, k, w)
         | Inr req \<Rightarrow>
             (case doRequest L req k w of
                (Inl err, k1, w1) \<Rightarrow> (Inl err, k1, w1)
              | (Inr resp, k1, w1) \<Rightarrow>
                  (case ReadAll (Body resp) of
                     (body, Some err) \<Rightarrow> (Inl err, k1, w1)
                   | (body, None) \<Rightarrow>
                       if StatusCode resp \<noteq> StatusOK then
                         (case Unmarshal_map L body of
                            Inl err \<Rightarrow>
                              (Inl (Errorf ''failed to list groups: status %d, unable to parse error''
                                      [ArgInt (StatusCode resp)]), k1, w1)
                          | Inr errResp \<Rightarrow>
                              (Inl (Errorf ''failed to list groups: %v'' [ArgMap errResp]), k1, w1))
                       else
                         (case Unmarshal_Groups L body of
                            Inl err \<Rightarrow>
                              (Inl (Errorf ''json: %v'' [ArgError err]), k1,
                               log_write (Msgf ErrorLevel
                                 ''Unable to decode response into []models.Group: %s''
                                 [ArgString body]) w1)
                          | Inr groups \<Rightarrow> (Inr groups, k1, w1)))))"

definition CreateGroup :: "lib \<Rightarrow> Group \<Rightarrow> Group io" where
  "CreateGroup L grp k w =
     (let url = KeycloakURL (config k) @ ''/admin/realms/'' @ KeycloakRealm (config k) @ ''/groups''
      in case Marshal_Group L grp of
           Inl err \<Rightarrow> (Inl err, k, w)
         | Inr payload \<Rightarrow>
             (case NewRequest L ''POST'' url (Some payload) of
                Inl err \<Rightarrow> (Inl err, k, w)
              | Inr req0 \<Rightarrow>
                  let req = req0\<lparr>Header := Header_Add ''Content-Type'' ''application/json''
                                     (Header req0)\<rparr>
                  in case doRequest L req k w of
                       (Inl err, k1, w1) \<Rightarrow> (Inl err, k1, w1)
                     | (Inr resp, k1, w1) \<Rightarrow>
                         if StatusCode resp \<noteq> StatusCreated \<and> StatusCode resp \<noteq> StatusNoContent then
                           (let (bodyBytes, _) = ReadAll (Body resp)
                            in (Inl (Errorf ''failed to create group, status: %d, response: %s''
                                       [ArgInt (StatusCode resp), ArgString bodyBytes]), k1, w1))
                         else (Inr grp, k1, w1)))"

definition GetGroup :: "lib \<Rightarrow> string \<Rightarrow> Group io" where
  "GetGroup L id' k w =
     (let url = KeycloakURL (config k) @ ''/admin/realms/'' @ KeycloakRealm (config k) @ ''/groups/'' @ id'
      in case NewRequest L ''GET'' url None of
           Inl err \<Rightarrow> (Inl err, k, w)
         | Inr req \<Rightarrow>
             (case doRequest L req k w of
                (Inl err, k1, w1) \<Rightarrow> (Inl err, k1, w1)
              | (Inr resp, k1, w1) \<Rightarrow>
                  if StatusCode resp \<noteq> StatusOK then
                    (Inl (Errorf ''group not found, status: %d'' [ArgInt (StatusCode resp)]), k1, w1)
                  else
                    (case Decode_Group L (Body resp) of
                       Inl err \<Rightarrow> (Inl err, k1, w1)
                     | Inr grp \<Rightarrow> (Inr grp, k1, w1))))"

definition UpdateGroup :: "lib \<Rightarrow> string \<Rightarrow> Group \<Rightarrow> Group io" where
  "UpdateGroup L id' grp k w =
     (let url = KeycloakURL (config k) @ ''/admin/realms/'' @ KeycloakRealm (config k) @ ''/groups/'' @ id'
      in case Marshal_Group L grp of
           Inl err \<Rightarrow> (Inl err, k, w)
         | Inr payload \<Rightarrow>
             (case NewRequest L ''PUT'' url (Some payload) of
                Inl err \<Rightarrow> (Inl err, k, w)
              | Inr req0 \<Rightarrow>
                  let req = req0\<lparr>Header := Header_Add ''Content-Type'' ''application/json''
                                     (Header req0)\<rparr>
                  in case doRequest L req k w of
                       (Inl err, k1, w1) \<Rightarrow> (Inl err, k1, w1)
                     | (Inr resp, k1, w1) \<Rightarrow>
                         if StatusCode resp \<noteq> StatusNoContent then
                           (let (bodyBytes, _) = ReadAll (Body resp)
                            in (Inl (Errorf ''failed to update group, status: %d, response: %s''
                                       [ArgInt (StatusCode resp), ArgString bodyBytes]), k1, w1))
                         else (Inr grp, k1, w1)))"

definition DeleteGroup :: "lib \<Rightarrow> string \<Rightarrow> KeycloakService \<Rightarrow> world
    \<Rightarrow> error option \<times> KeycloakService \<times> world" where
  "DeleteGroup L id' k w =
     (let url = KeycloakURL (config k) @ ''/admin/realms/'' @ KeycloakRealm (config k) @ ''/groups/'' @ id'
      in case NewRequest L ''DELETE'' url None of
           Inl err \<Rightarrow> (Some err, k, w)
         | Inr req \<Rightarrow>
             (case doRequest L req k w of
                (Inl err, k1, w1) \<Rightarrow> (Some err, k1, w1)
              | (Inr resp, k1, w1) \<Rightarrow>
                  if StatusCode resp \<noteq> StatusNoContent then
                    (let (bodyBytes, _) = ReadAll (Body resp)
                     in (Some (Errorf ''failed to delete group, status: %d, response: %s''
                                 [ArgInt (StatusCode resp), ArgString bodyBytes]), k1, w1))
                  else (None, k1, w1)))"

subsection \<open>Membership operations\<close>

definition ListUserGroups :: "lib \<Rightarrow> string \<Rightarrow> Group list io" where
  "ListUserGroups L userID k w =
     (let url = KeycloakURL (config k) @ ''/admin/realms/'' @ KeycloakRealm (config k) @ ''/users/'' @ userID @ ''/groups''
      in case NewRequest L ''GET'' url None of
           Inl err \<Rightarrow> (Inl err, k, w)
         | Inr req \<Rightarrow>
             (case doRequest L req k w of
                (Inl err, k1, w1) \<Rightarrow> (Inl err, k1, w1)
              | (Inr resp, k1, w1) \<Rightarrow>
                  (case ReadAll (Body resp) of
                     (body, Some err) \<Rightarrow> (Inl err, k1, w1)
                   | (body, None) \<Rightarrow>
                       if StatusCode resp \<noteq> StatusOK then
                         (case Unmarshal_map L body of
                            Inl err \<Rightarrow>
                              (Inl (Errorf ''failed to list user groups: status %d, unable to parse error''
                                      [ArgInt (StatusCode resp)]), k1, w1)
                          | Inr errResp \<Rightarrow>
                              (Inl (Errorf ''failed to list user groups: %v'' [ArgMap errResp]), k1, w1))
                       else
                         (case Unmarshal_Groups L body of
                            Inl err \<Rightarrow>
                              (Inl (Errorf ''json: %v'' [ArgError err]), k1,
                               log_write (Msgf ErrorLevel
                                 ''Unable to decode response into []models.Group: %s''
                                 [ArgString body]) w1)
                          | Inr groups \<Rightarrow> (Inr groups, k1, w1)))))"

definition AddUserToGroup :: "lib \<Rightarrow> string \<Rightarrow> string \<Rightarrow> KeycloakService \<Rightarrow> world
    \<Rightarrow> error option \<times> KeycloakService \<times> world" where
  "AddUserToGroup L userID groupID k w =
     (let url = KeycloakURL (config k) @ ''/admin/realms/'' @ KeycloakRealm (config k) @ ''/users/'' @ userID @ ''/groups/'' @ groupID
      in case NewRequest L ''PUT'' url None of
           Inl err \<Rightarrow> (Some err, k, w)
         | Inr req \<Rightarrow>
             (case doRequest L req k w of
                (Inl err, k1, w1) \<Rightarrow> (Some err, k1, w1)
              | (Inr resp, k1, w1) \<Rightarrow>
                  if StatusCode resp \<noteq> StatusNoContent then
                    (let (bodyBytes, _) = ReadAll (Body resp)
                     in (Some (Errorf ''failed to add user to group, status: %d, response: %s''
                                 [ArgInt (StatusCode resp), ArgString bodyBytes]), k1, w1))
                  else (None, k1, w1)))"

text \<open>
  \<^verbatim>\<open>users[0]\<close> is reached only behind the two length checks, so the list has exactly one
  element there; the last case stands for the index panic, which those checks exclude.
\<close>

definition AddUserToGroupByEmail :: "lib \<Rightarrow> string \<Rightarrow> string \<Rightarrow> KeycloakService \<Rightarrow> world
    \<Rightarrow> error option \<times> KeycloakService \<times> world" where
  "AddUserToGroupByEmail L email groupID k w =
     (case SearchUserByEmail L email k w of
        (Inl err, k1, w1) \<Rightarrow>
          (Some (Errorf ''error searching user by email: %v'' [ArgError err]), k1, w1)
      | (Inr users, k1, w1) \<Rightarrow>
          if length users = 0 then
            (Some (Errorf ''no user found with the provided email'' []), k1, w1)
          else if length users > 1 then
            (Some (Errorf ''multiple users found with the provided email'' []), k1, w1)
          else
            (case users of
               u # _ \<Rightarrow> AddUserToGroup L (User.ID u) groupID k1 w1
             | [] \<Rightarrow> (Some (LibError ''index out of range''), k1, w1)))"

definition RemoveUserFromGroup :: "lib \<Rightarrow> string \<Rightarrow> string \<Rightarrow> KeycloakService \<Rightarrow> world
    \<Rightarrow> error option \<times> KeycloakService \<times> world" where
  "RemoveUserFromGroup L userID groupID k w =
     (let url = KeycloakURL (config k) @ ''/admin/realms/'' @ KeycloakRealm (config k) @ ''/users/'' @ userID @ ''/groups/'' @ groupID
      in case NewRequest L ''DELETE'' url None of
           Inl err \<Rightarrow> (Some err, k, w)
         | Inr req \<Rightarrow>
             (case doRequest L req k w of
                (Inl err, k1, w1) \<Rightarrow> (Some err, k1, w1)
              | (Inr resp, k1, w1) \<Rightarrow>
                  if StatusCode resp \<noteq> StatusNoContent then
                    (let (bodyBytes, _) = ReadAll (Body resp)
                     in (Some (Errorf ''failed to remove user from group, status: %d, response: %s''
                                 [ArgInt (StatusCode resp), ArgString bodyBytes]), k1, w1))
                  else (None, k1, w1)))"

definition ListGroupUsers :: "lib \<Rightarrow> string \<Rightarrow> User list io" where
  "ListGroupUsers L groupID k w =
     (let url = KeycloakURL (config k) @ ''/admin/realms/'' @ KeycloakRealm (config k) @ ''/groups/'' @ groupID @ ''/members''
      in case NewRequest L ''GET'' url None of
           Inl err \<Rightarrow> (Inl err, k, w)
         | Inr req \<Rightarrow>
             (case doRequest L req k w of
                (Inl err, k1, w1) \<Rightarrow> (Inl err, k1, w1)
              | (Inr resp, k1, w1) \<Rightarrow>
                  (case ReadAll (Body resp) of
                     (body, Some err) \<Rightarrow> (Inl err, k1, w1)
                   | (body, None) \<Rightarrow>
                       if StatusCode resp \<noteq> StatusOK then
                         (case Unmarshal_map L body of
                            Inl err \<Rightarrow>
                              (Inl (Errorf ''failed to list group users: status %d, unable to parse error''
                                      [ArgInt (StatusCode resp)]), k1, w1)
                          | Inr errResp \<Rightarrow>
                              (Inl (Errorf ''failed to list group users: %v'' [ArgMap errResp]), k1, w1))
                       else
                         (case Unmarshal_Users L body of
                            Inl err \<Rightarrow>
                              (Inl (Errorf ''json: %v'' [ArgError err]), k1,
                               log_write (Msgf ErrorLevel
                                 ''Unable to decode response into []models.User: %s''
                                 [ArgString body]) w1)
                          | Inr users \<Rightarrow> (Inr users, k1, w1)))))"

subsection \<open>Groups with their users\<close>

text \<open>
  The \<^verbatim>\<open>for _, group := range groups\<close> loop of \<^verbatim>\<open>ListGroupsWithUsers\<close>, with the slice
  \<^verbatim>\<open>result\<close> it appends to as accumulator.
\<close>

fun ListGroupsWithUsers_loop :: "lib \<Rightarrow> Group list \<Rightarrow> GroupWithUsers list \<Rightarrow> GroupWithUsers list io" where
  "ListGroupsWithUsers_loop L [] result k w = (Inr result, k, w)"
| "ListGroupsWithUsers_loop L (grp # groups) result k w =
     (case ListGroupUsers L (Group.ID grp) k w of
        (Inl err, k1, w1) \<Rightarrow>
          (Inl (Errorf ''failed to get users for group %s: %v''
                  [ArgString (Group.ID grp), ArgError err]), k1, w1)
      | (Inr users, k1, w1) \<Rightarrow>
          ListGroupsWithUsers_loop L groups (result @ [\<lparr>Group = grp, Users = users\<rparr>]) k1 w1)"

definition ListGroupsWithUsers :: "lib \<Rightarrow> GroupWithUsers list io" where
  "ListGroupsWithUsers L k w =
     (case ListGroups L k w of
        (Inl err, k1, w1) \<Rightarrow> (Inl err, k1, w1)
      | (Inr groups, k1, w1) \<Rightarrow> ListGroupsWithUsers_loop L groups [] k1 w1)"

section \<open>Package \<^verbatim>\<open>handlers\<close>: the request boundary\<close>

text \<open>
  What a handler reads from its \<^verbatim>\<open>*gin.Context\<close>: path parameters, query parameters and
  the request body. \<^verbatim>\<open>c.Param\<close> and \<^verbatim>\<open>c.Query\<close> return the empty string for a missing key.
\<close>

record Context =
  Params :: "(string \<times> string) list"
  Queries :: "(string \<times> string) list"
  RequestBody :: string

definition Param :: "Context \<Rightarrow> string \<Rightarrow> string" where
  "Param c key = (case map_of (Params c) key of Some v \<Rightarrow> v | None \<Rightarrow> [])"

definition Query :: "Context \<Rightarrow> string \<Rightarrow> string" where
  "Query c key = (case map_of (Queries c) key of Some v \<Rightarrow> v | None \<Rightarrow> [])"

text \<open>
  What a handler writes with \<^verbatim>\<open>c.JSON(code, obj)\<close>. The message \<^verbatim>\<open>err.Error()\<close> of an error
  is kept as the error it renders; a message written in the handler is kept as its text.
\<close>

datatype message = Text string | Error_of error

datatype obj =
    H_error message
  | Users_obj "User list"
  | User_obj User
  | Groups_obj "Group list"
  | Group_obj Group
  | GroupsWithUsers_obj "GroupWithUsers list"
  | Nil_obj

datatype reply = JSON int obj

fun Code :: "reply \<Rightarrow> int" where
  "Code (JSON code v) = code"

fun Obj :: "reply \<Rightarrow> obj" where
  "Obj (JSON code v) = v"

text \<open>
  A handler owns one \<^verbatim>\<open>*services.KeycloakService\<close>, its only field, so a handler method is
  an operation on that service.
\<close>

type_synonym 'a handler = "KeycloakService \<Rightarrow> world \<Rightarrow> 'a \<times> KeycloakService \<times> world"

subsection \<open>\<^verbatim>\<open>GroupHandler\<close>\<close>

definition GroupHandler_ListGroups :: "lib \<Rightarrow> Context \<Rightarrow> reply handler" where
  "GroupHandler_ListGroups L c k w =
     (case ListGroups L k w of
        (Inl err, k1, w1) \<Rightarrow>
          (JSON StatusInternalServerError (H_error (Error_of err)), k1,
           log_write (Msg ErrorLevel (Some err) ''Error listing groups'') w1)
      | (Inr groups, k1, w1) \<Rightarrow> (JSON StatusOK (Groups_obj groups), k1, w1))"

definition GroupHandler_CreateGroup :: "lib \<Rightarrow> Context \<Rightarrow> reply handler" where
  "GroupHandler_CreateGroup L c k w =
     (case ShouldBindJSON_Group L (RequestBody c) of
        Inl err \<Rightarrow> (JSON StatusBadRequest (H_error (Error_of err)), k, w)
      | Inr grp \<Rightarrow>
          (case CreateGroup L grp k w of
             (Inl err, k1, w1) \<Rightarrow>
               (JSON StatusInternalServerError (H_error (Error_of err)), k1,
                log_write (Msg ErrorLevel (Some err) ''Error creating group'') w1)
           | (Inr created, k1, w1) \<Rightarrow> (JSON StatusCreated (Group_obj created), k1, w1)))"

definition GroupHandler_ListGroupsWithUsers :: "lib \<Rightarrow> Context \<Rightarrow> reply handler" where
  "GroupHandler_ListGroupsWithUsers L c k w =
     (case ListGroupsWithUsers L k w of
        (Inl err, k1, w1) \<Rightarrow>
          (JSON StatusInternalServerError (H_error (Error_of err)), k1,
           log_write (Msg ErrorLevel (Some err) ''Error listing groups with users'') w1)
      | (Inr groupsWithUsers, k1, w1) \<Rightarrow> (JSON StatusOK (GroupsWithUsers_obj groupsWithUsers), k1, w1))"

definition GroupHandler_GetGroup :: "lib \<Rightarrow> Context \<Rightarrow> reply handler" where
  "GroupHandler_GetGroup L c k w =
     (let id' = Param c ''id''
      in case GetGroup L id' k w of
           (Inl err, k1, w1) \<Rightarrow>
             (JSON StatusNotFound (H_error (Error_of err)), k1,
              log_write (Msg ErrorLevel (Some err) ''Error fetching group'') w1)
         | (Inr grp, k1, w1) \<Rightarrow> (JSON StatusOK (Group_obj grp), k1, w1))"

definition GroupHandler_UpdateGroup :: "lib \<Rightarrow> Context \<Rightarrow> reply handler" where
  "GroupHandler_UpdateGroup L c k w =
     (let id' = Param c ''id''
      in case ShouldBindJSON_Group L (RequestBody c) of
           Inl err \<Rightarrow> (JSON StatusBadRequest (H_error (Error_of err)), k, w)
         | Inr grp \<Rightarrow>
             (case UpdateGroup L id' grp k w of
                (Inl err, k1, w1) \<Rightarrow>
                  (JSON StatusInternalServerError (H_error (Error_of err)), k1,
                   log_write (Msg ErrorLevel (Some err) ''Error updating group'') w1)
              | (Inr updated, k1, w1) \<Rightarrow> (JSON StatusOK (Group_obj updated), k1, w1)))"

definition GroupHandler_DeleteGroup :: "lib \<Rightarrow> Context \<Rightarrow> reply handler" where
  "GroupHandler_DeleteGroup L c k w =
     (let id' = Param c ''id''
      in case DeleteGroup L id' k w of
           (Some err, k1, w1) \<Rightarrow>
             (JSON StatusInternalServerError (H_error (Error_of err)), k1,
              log_write (Msg ErrorLevel (Some err) ''Error deleting group'') w1)
         | (None, k1, w1) \<Rightarrow> (JSON StatusNoContent Nil_obj, k1, w1))"

subsection \<open>\<^verbatim>\<open>UserHandler\<close>\<close>

definition UserHandler_ListUsers :: "lib \<Rightarrow> Context \<Rightarrow> reply handler" where
  "UserHandler_ListUsers L c k w =
     (case ListUsers L k w of
        (Inl err, k1, w1) \<Rightarrow>
          (JSON StatusInternalServerError (H_error (Error_of err)), k1,
           log_write (Msg ErrorLevel (Some err) ''Error listing users'') w1)
      | (Inr users, k1, w1) \<Rightarrow> (JSON StatusOK (Users_obj users), k1, w1))"

definition UserHandler_CreateUser :: "lib \<Rightarrow> Context \<Rightarrow> reply handler" where
  "UserHandler_CreateUser L c k w =
     (case ShouldBindJSON_User L (RequestBody c) of
        Inl err \<Rightarrow> (JSON StatusBadRequest (H_error (Error_of err)), k, w)
      | Inr user \<Rightarrow>
          (case CreateUser L user k w of
             (Inl err, k1, w1) \<Rightarrow>
               (JSON StatusInternalServerError (H_error (Error_of err)), k1,
                log_write (Msg ErrorLevel (Some err) ''Error creating user'') w1)
           | (Inr created, k1, w1) \<Rightarrow> (JSON StatusCreated (User_obj created), k1, w1)))"

definition UserHandler_GetUser :: "lib \<Rightarrow> Context \<Rightarrow> reply handler" where
  "UserHandler_GetUser L c k w =
     (let id' = Param c ''id''
      in case GetUser L id' k w of
           (Inl err, k1, w1) \<Rightarrow>
             (JSON StatusNotFound (H_error (Error_of err)), k1,
              log_write (Msg ErrorLevel (Some err) ''Error fetching user'') w1)
         | (Inr user, k1, w1) \<Rightarrow> (JSON StatusOK (User_obj user), k1, w1))"

definition UserHandler_SearchUserByEmail :: "lib \<Rightarrow> Context \<Rightarrow> reply handler" where
  "UserHandler_SearchUserByEmail L c k w =
     (let email = Query c ''email''
      in if email = [] then
           (JSON StatusBadRequest (H_error (Text ''email query parameter is required'')), k, w)
         else
           (case SearchUserByEmail L email k w of
              (Inl err, k1, w1) \<Rightarrow>
                (JSON StatusInternalServerError (H_error (Error_of err)), k1,
                 log_write (Msg ErrorLevel (Some err) ''Error searching user by email'') w1)
            | (Inr users, k1, w1) \<Rightarrow> (JSON StatusOK (Users_obj users), k1, w1)))"

definition UserHandler_UpdateUser :: "lib \<Rightarrow> Context \<Rightarrow> reply handler" where
  "UserHandler_UpdateUser L c k w =
     (let id' = Param c ''id''
      in case ShouldBindJSON_User L (RequestBody c) of
           Inl err \<Rightarrow> (JSON StatusBadRequest (H_error (Error_of err)), k, w)
         | Inr user \<Rightarrow>
             (case UpdateUser L id' user k w of
                (Inl err, k1, w1) \<Rightarrow>
                  (JSON StatusInternalServerError (H_error (Error_of err)), k1,
                   log_write (Msg ErrorLevel (Some err) ''Error updating user'') w1)
              | (Inr updated, k1, w1) \<Rightarrow> (JSON StatusOK (User_obj updated), k1, w1)))"

definition UserHandler_DeleteUser :: "lib \<Rightarrow> Context \<Rightarrow> reply handler" where
  "UserHandler_DeleteUser L c k w =
     (let id' = Param c ''id''
      in case DeleteUser L id' k w of
           (Some err, k1, w1) \<Rightarrow>
             (JSON StatusInternalServerError (H_error (Error_of err)), k1,
              log_write (Msg ErrorLevel (Some err) ''Error deleting user'') w1)
         | (None, k1, w1) \<Rightarrow> (JSON StatusNoContent Nil_obj, k1, w1))"

subsection \<open>\<^verbatim>\<open>MembershipHandler\<close>\<close>

definition MembershipHandler_ListUserGroups :: "lib \<Rightarrow> Context \<Rightarrow> reply handler" where
  "MembershipHandler_ListUserGroups L c k w =
     (let userID = Param c ''id'' in
      case ListUserGroups L userID k w of
        (Inl err, k1, w1) \<Rightarrow>
          (JSON StatusInternalServerError (H_error (Error_of err)), k1,
           log_write (Msg ErrorLevel (Some err) ''Error listing groups for user'') w1)
      | (Inr groups, k1, w1) \<Rightarrow> (JSON StatusOK (Groups_obj groups), k1, w1))"

definition MembershipHandler_AddUserToGroup :: "lib \<Rightarrow> Context \<Rightarrow> reply handler" where
  "MembershipHandler_AddUserToGroup L c k w =
     (let userID = Param c ''id'';
          groupID = Param c ''groupId''
      in case AddUserToGroup L userID groupID k w of
           (Some err, k1, w1) \<Rightarrow>
             (JSON StatusInternalServerError (H_error (Error_of err)), k1,
              log_write (Msg ErrorLevel (Some err) ''Error adding user to group'') w1)
         | (None, k1, w1) \<Rightarrow> (JSON StatusNoContent Nil_obj, k1, w1))"

text \<open>
  This handler does the search and the length checks itself and then calls
  \<^verbatim>\<open>AddUserToGroup\<close>. As in the service, \<^verbatim>\<open>users[0]\<close> is reached with exactly one element, and
  the last case stands for the index panic that the checks exclude.
\<close>

definition MembershipHandler_AddUserToGroupByEmail :: "lib \<Rightarrow> Context \<Rightarrow> reply handler" where
  "MembershipHandler_AddUserToGroupByEmail L c k w =
     (let email = Param c ''email'';
          groupID = Param c ''groupId''
      in if email = [] \<or> groupID = [] then
           (JSON StatusBadRequest (H_error (Text ''email and groupId are required'')), k, w)
         else
           (case SearchUserByEmail L email k w of
              (Inl err, k1, w1) \<Rightarrow>
                (JSON StatusInternalServerError (H_error (Error_of err)), k1,
                 log_write (Msg ErrorLevel (Some err) ''Error searching user by email'') w1)
            | (Inr users, k1, w1) \<Rightarrow>
                if length users = 0 then
                  (JSON StatusNotFound
                     (H_error (Text ''no user found with the provided email'')), k1, w1)
                else if length users > 1 then
                  (JSON StatusBadRequest
                     (H_error (Text ''multiple users found with the provided email'')), k1, w1)
                else
                  (case users of
                     u # _ \<Rightarrow>
                       (let userID = User.ID u
                        in case AddUserToGroup L userID groupID k1 w1 of
                             (Some err, k2, w2) \<Rightarrow>
                               (JSON StatusInternalServerError (H_error (Error_of err)), k2,
                                log_write (Msg ErrorLevel (Some err)
                                  ''Error adding user to group by email'') w2)
                           | (None, k2, w2) \<Rightarrow> (JSON StatusNoContent Nil_obj, k2, w2))
                   | [] \<Rightarrow>
                       (JSON StatusInternalServerError
                          (H_error (Error_of (LibError ''index out of range''))), k1, w1))))"

definition MembershipHandler_RemoveUserFromGroup :: "lib \<Rightarrow> Context \<Rightarrow> reply handler" where
  "MembershipHandler_RemoveUserFromGroup L c k w =
     (let userID = Param c ''id'';
          groupID = Param c ''groupId''
      in case RemoveUserFromGroup L userID groupID k w of
           (Some err, k1, w1) \<Rightarrow>
             (JSON StatusInternalServerError (H_error (Error_of err)), k1,
              log_write (Msg ErrorLevel (Some err) ''Error removing user from group'') w1)
         | (None, k1, w1) \<Rightarrow> (JSON StatusNoContent Nil_obj, k1, w1))"

definition MembershipHandler_ListGroupUsers :: "lib \<Rightarrow> Context \<Rightarrow> reply handler" where
  "MembershipHandler_ListGroupUsers L c k w =
     (let groupID = Param c ''id'' in
      case ListGroupUsers L groupID k w of
        (Inl err, k1, w1) \<Rightarrow>
          (JSON StatusInternalServerError (H_error (Error_of err)), k1,
           log_write (Msg ErrorLevel (Some err) ''Error listing users in group'') w1)
      | (Inr users, k1, w1) \<Rightarrow> (JSON StatusOK (Users_obj users), k1, w1))"

section \<open>Notation for the statements\<close>

abbreviation with_bearer :: "string \<Rightarrow> request \<Rightarrow> request" where
  "with_bearer tok req \<equiv>
     req\<lparr>Header := Header_Set ''Authorization'' (''Bearer '' @ tok) (Header req)\<rparr>"

abbreviation sending :: "request \<Rightarrow> world \<Rightarrow> world" where
  "sending req w \<equiv> w\<lparr>Sent := Sent w @ [req]\<rparr>"

abbreviation token_expired :: log_entry where
  "token_expired \<equiv> Msg InfoLevel None ''Token expired. Refreshing token and retrying request.''"

abbreviation token_endpoint :: "Config \<Rightarrow> string" where
  "token_endpoint cfg \<equiv>
     KeycloakURL cfg @ ''/realms/'' @ KeycloakRealm cfg @ ''/protocol/openid-connect/token''"

abbreviation admin_realm :: "KeycloakService \<Rightarrow> string" where
  "admin_realm k \<equiv> KeycloakURL (config k) @ ''/admin/realms/'' @ KeycloakRealm (config k)"

abbreviation plain_request :: "string \<Rightarrow> string \<Rightarrow> request" where
  "plain_request method url \<equiv>
     \<lparr>Method = method, URL = url, Header = [], ReqBody = None, ContentLength = 0, GetBody = None\<rparr>"

abbreviation json_request :: "string \<Rightarrow> string \<Rightarrow> string \<Rightarrow> request" where
  "json_request method url payload \<equiv>
     \<lparr>Method = method, URL = url,
      Header = Header_Add ''Content-Type'' ''application/json'' [], ReqBody = Some payload,
      ContentLength = int (length payload), GetBody = Some payload\<rparr>"

section \<open>A concrete library and concrete backends\<close>

text \<open>
  The theorems below hold for every library and every transport. To run the operations on
  inputs, this section fixes one configuration, a JSON codec that knows the few texts the
  backends below send (and rejects every other text), and some transports.
\<close>

definition test_cfg :: Config where
  "test_cfg = \<lparr>KeycloakURL = ''http://kc'', KeycloakRealm = ''master'',
               KeycloakUsername = ''admin'', KeycloakPassword = ''admin''\<rparr>"

definition token_url :: string where
  "token_url = ''http://kc/realms/master/protocol/openid-connect/token''"

definition admin_url :: string where
  "admin_url = ''http://kc/admin/realms/master''"

definition token_json :: string where
  \<open>token_json = ''{"access_token": "fresh-token"}''\<close>

definition error_json :: string where
  \<open>error_json = ''{"error": "boom"}''\<close>

definition alice :: User where
  "alice = \<lparr>User.ID = ''1'', Username = ''alice'', Email = ''alice@example.com'',
            FirstName = ''Alice'', LastName = ''Doe''\<rparr>"

definition alice2 :: User where
  "alice2 = \<lparr>User.ID = ''2'', Username = ''alice2'', Email = ''alice@example.com'',
             FirstName = ''Alice'', LastName = ''Roe''\<rparr>"

definition johndoe :: User where
  "johndoe = \<lparr>User.ID = [], Username = ''johndoe'', Email = ''john@example.com'',
              FirstName = ''John'', LastName = ''Doe''\<rparr>"

definition group_A :: Group where
  "group_A = \<lparr>ID = ''A'', Name = ''Admins''\<rparr>"

definition group_B :: Group where
  "group_B = \<lparr>ID = ''B'', Name = ''Staff''\<rparr>"

definition one_user_json :: string where
  \<open>one_user_json = ''[{"id":"1","username":"alice","email":"alice@example.com","firstName":"Alice","lastName":"Doe"}]''\<close>

definition two_users_json :: string where
  \<open>two_users_json = ''[{"id":"1","username":"alice","email":"alice@example.com","firstName":"Alice","lastName":"Doe"},{"id":"2","username":"alice2","email":"alice@example.com","firstName":"Alice","lastName":"Roe"}]''\<close>

definition groups_json :: string where
  \<open>groups_json = ''[{"id":"A","name":"Admins"},{"id":"B","name":"Staff"}]''\<close>

definition groups_rev_json :: string where
  \<open>groups_rev_json = ''[{"id":"B","name":"Staff"},{"id":"A","name":"Admins"}]''\<close>

definition render_User :: "User \<Rightarrow> string" where
  \<open>render_User u = ''{"id":"'' @ User.ID u @ ''","username":"'' @ Username u @ ''","email":"'' @ Email u
       @ ''","firstName":"'' @ FirstName u @ ''","lastName":"'' @ LastName u @ ''"}''\<close>

definition render_Group :: "Group \<Rightarrow> string" where
  \<open>render_Group g = ''{"id":"'' @ Group.ID g @ ''","name":"'' @ Name g @ ''"}''\<close>

definition syntax_error :: error where
  "syntax_error = LibError ''invalid character''"

definition test_lib :: "RoundTripper \<Rightarrow> lib" where
  "test_lib net =
     \<lparr>DefaultTransport = net,
      url_Parse = (\<lambda>u. None),
      Marshal_User = (\<lambda>u. Inr (render_User u)),
      Marshal_Group = (\<lambda>g. Inr (render_Group g)),
      Unmarshal_map = (\<lambda>b. if b = error_json then Inr [(''error'', JString ''boom'')]
                            else if b = token_json then Inr [(''access_token'', JString ''fresh-token'')]
                            else Inl syntax_error),
      Unmarshal_Users = (\<lambda>b. if b = ''[]'' then Inr []
                              else if b = one_user_json then Inr [alice]
                              else if b = two_users_json then Inr [alice, alice2]
                              else Inl syntax_error),
      Unmarshal_Groups = (\<lambda>b. if b = ''[]'' then Inr []
                               else if b = groups_json then Inr [group_A, group_B]
                               else if b = groups_rev_json then Inr [group_B, group_A]
                               else Inl syntax_error),
      Decode_map = (\<lambda>b. if Data b = error_json then Inr [(''error'', JString ''boom'')]
                         else if Data b = token_json then Inr [(''access_token'', JString ''fresh-token'')]
                         else Inl syntax_error),
      Decode_User = (\<lambda>b. if Data b = render_User alice then Inr alice else Inl syntax_error),
      Decode_Group = (\<lambda>b. if Data b = render_Group group_A then Inr group_A else Inl syntax_error),
      ShouldBindJSON_User = (\<lambda>b. if b = render_User johndoe then Inr johndoe else Inl syntax_error),
      ShouldBindJSON_Group = (\<lambda>b. if b = render_Group group_A then Inr group_A else Inl syntax_error)\<rparr>"

definition answer :: "int \<Rightarrow> string \<Rightarrow> error + response" where
  "answer code text = Inr \<lparr>StatusCode = code, Body = \<lparr>Data = text, Err = None\<rparr>\<rparr>"

text \<open>No backend is listening.\<close>

definition refused :: RoundTripper where
  "refused sent req = Inl (LibError ''connection refused'')"

text \<open>Every call, the token call included, is answered 401.\<close>

definition always_401 :: RoundTripper where
  "always_401 sent req = answer 401 []"

text \<open>The token endpoint hands out a token; every other call is answered 401.\<close>

definition never_accepts :: RoundTripper where
  "never_accepts sent req = (if URL req = token_url then answer 200 token_json else answer 401 [])"


text \<open>
  The token endpoint hands out a token; of the other calls the very first one, whatever
  credential it carries, is answered 401, and the later ones 204.
\<close>

definition expired_once :: RoundTripper where
  "expired_once sent req =
     (if URL req = token_url then answer 200 token_json
      else if sent = [] then answer 401 []
      else answer 204 [])"

text \<open>
  A backend with two groups, members for group A only, and three emails: one that nobody
  has, one that one user has and one that two users share. A POST is answered 201, a PUT
  or DELETE 204, and everything else 500 with a JSON error object.
\<close>

definition demo_backend :: RoundTripper where
  "demo_backend sent req =
     (if URL req = token_url then answer 200 token_json
      else if Method req = ''GET'' \<and> URL req = admin_url @ ''/groups'' then answer 200 groups_json
      else if Method req = ''GET'' \<and> URL req = admin_url @ ''/groups/A/members'' then answer 200 one_user_json
      else if Method req = ''GET'' \<and> URL req = admin_url @ ''/users?email=nobody'' then answer 200 ''[]''
      else if Method req = ''GET'' \<and> URL req = admin_url @ ''/users?email=alice'' then answer 200 one_user_json
      else if Method req = ''GET'' \<and> URL req = admin_url @ ''/users?email=twins'' then answer 200 two_users_json
      else if Method req = ''POST'' then answer 201 []
      else if Method req = ''PUT'' \<or> Method req = ''DELETE'' then answer 204 []
      else answer 500 error_json)"

text \<open>A backend that answers every call with 200 and an empty body.\<close>

definition lenient_backend :: RoundTripper where
  "lenient_backend sent req = answer 200 []"

definition test_service :: "RoundTripper \<Rightarrow> KeycloakService" where
  "test_service net = \<lparr>config = test_cfg, client = \<lparr>Transport = net\<rparr>, token = ''dummy-token''\<rparr>"

definition fresh_world :: world where
  "fresh_world = \<lparr>Sent = [], Log = []\<rparr>"

text \<open>Requests as the operations build them for this configuration.\<close>

definition users_request :: request where
  "users_request = plain_request ''GET'' ''http://kc/admin/realms/master/users''"

definition token_request :: request where
  "token_request =
     \<lparr>Method = ''POST'', URL = token_url,
      Header = [(''Content-Type'', [''application/x-www-form-urlencoded''])],
      ReqBody = Some ''grant_type=password&client_id=admin-cli&username=admin&password=admin'',
      ContentLength = 69,
      GetBody = Some ''grant_type=password&client_id=admin-cli&username=admin&password=admin''\<rparr>"

definition search_request :: "string \<Rightarrow> request" where
  "search_request email =
     plain_request ''GET'' (''http://kc/admin/realms/master/users?email='' @ email)"

text \<open>The backend above, with an empty member list for group B as well.\<close>

definition full_backend :: RoundTripper where
  "full_backend sent req =
     (if Method req = ''GET'' \<and> URL req = admin_url @ ''/groups/B/members'' then answer 200 ''[]''
      else demo_backend sent req)"

definition get_request :: "string \<Rightarrow> request" where
  "get_request path =
     with_bearer ''dummy-token'' (plain_request ''GET'' (''http://kc/admin/realms/master'' @ path))"

definition write_backend_request :: "string \<Rightarrow> string \<Rightarrow> string \<Rightarrow> request" where
  "write_backend_request method path payload =
     with_bearer ''dummy-token''
       \<lparr>Method = method, URL = ''http://kc/admin/realms/master'' @ path,
        Header = [(''Content-Type'', [''application/json''])], ReqBody = Some payload,
        ContentLength = int (length payload), GetBody = Some payload\<rparr>"

text \<open>Every call is answered 500 with a body that is not JSON.\<close>

definition broken_backend :: RoundTripper where
  "broken_backend sent req = answer 500 ''Internal Server Error''"

text \<open>A request to the boundary with path parameters only.\<close>

definition path_context :: "(string \<times> string) list \<Rightarrow> Context" where
  "path_context params = \<lparr>Params = params, Queries = [], RequestBody = []\<rparr>"

text \<open>The backend above with its listing in the other order: group B first, then group A.\<close>

definition reversed_backend :: RoundTripper where
  "reversed_backend sent req =
     (if Method req = ''GET'' \<and> URL req = admin_url @ ''/groups'' then answer 200 groups_rev_json
      else demo_backend sent req)"

text \<open>
  What \<^verbatim>\<open>net/http\<close> does on a connection it has not used before when the body of a request
  gives fewer bytes than its \<open>ContentLength\<close> announces: the send fails before anything
  reaches the backend.
\<close>

definition fresh_connection :: "RoundTripper \<Rightarrow> RoundTripper" where
  "fresh_connection net sent req =
     (case ReqBody req of
        Some b \<Rightarrow>
          if int (length b) \<noteq> ContentLength req then
            Inl (Errorf ''http: ContentLength=%d with Body length %d''
                   [ArgInt (ContentLength req), ArgInt (int (length b))])
          else net sent req
      | None \<Rightarrow> net sent req)"

text \<open>
  A backend whose admin token has expired: it hands out a new token at the token endpoint,
  answers 401 to every call that does not carry the new token, and with the new token
  answers 201 to a POST that carries a body and 400 to a POST that carries none.
\<close>

definition expired_backend :: RoundTripper where
  "expired_backend sent req =
     (if URL req = token_url then answer 200 token_json
      else if Header_Get ''Authorization'' (Header req) \<noteq> ''Bearer fresh-token'' then answer 401 []
      else if Method req = ''POST'' \<and> ReqBody req \<noteq> None \<and> ReqBody req \<noteq> Some [] then answer 201 []
      else if Method req = ''POST'' then answer 400 []
      else answer 204 [])"

text \<open>The request that \<^verbatim>\<open>CreateUser\<close> builds for johndoe.\<close>

definition create_request :: request where
  "create_request = json_request ''POST'' ''http://kc/admin/realms/master/users'' (render_User johndoe)"

section \<open>Facts about token acquisition and the authenticated request\<close>

lemma consumed_no_body: "ReqBody req = None \<Longrightarrow> consumed req = req"
  by (simp add: consumed_def)


lemma getAdminToken_Log: "Log (snd (getAdminToken L k w)) = Log w"
  by (auto simp: getAdminToken_def Let_def ReadAll_def Do_def NewRequest_def
           split: sum.splits prod.splits if_splits option.splits json.splits)

lemma getAdminToken_Sent_ok:
  "getAdminToken L k w = ((tok, None), w') \<Longrightarrow>
   \<exists>treq. Sent w' = Sent w @ [treq] \<and> Method treq = ''POST'' \<and> URL treq = token_endpoint (config k)"
  by (auto simp: getAdminToken_def Let_def ReadAll_def Do_def NewRequest_def
           split: sum.splits prod.splits if_splits option.splits json.splits)

lemma getAdminToken_Sent_any:
  "getAdminToken L k w = (r, w') \<Longrightarrow>
   Sent w' = Sent w \<or>
   (\<exists>treq. Sent w' = Sent w @ [treq] \<and> Method treq = ''POST'' \<and> URL treq = token_endpoint (config k))"
  by (auto simp: getAdminToken_def Let_def ReadAll_def Do_def NewRequest_def
           split: sum.splits prod.splits if_splits option.splits json.splits)

lemma Header_Set_twice: "Header_Set key v (Header_Set key v' h) = Header_Set key v h"
  by (simp add: Header_Set_def)

lemma Header_Get_Set: "Header_Get key (Header_Set key v h) = v"
  by (simp add: Header_Get_def Header_Set_def update_conv')

lemma Do_Sent: "Sent (snd (snd (Do c req w))) = Sent w @ [req]"
  by (simp add: Do_def split: sum.splits)

lemma doRequest_transport_error:
  "Transport (client k) (Sent w) (with_bearer (token k) req) = Inl err
   \<Longrightarrow> doRequest L req k w
       = (Inl (url_Error (urlErrorOp (Method req)) (URL req) err), k,
          sending (with_bearer (token k) req) w)"
  by (simp add: doRequest_def Let_def Do_def)


lemma doRequest_refresh_failed:
  "Transport (client k) (Sent w) (with_bearer (token k) req) = Inr resp
   \<Longrightarrow> StatusCode resp = StatusUnauthorized
   \<Longrightarrow> getAdminToken L k (log_write token_expired (sending (with_bearer (token k) req) w))
        = ((tok, Some err), w3)
   \<Longrightarrow> doRequest L req k w = (Inl (Errorf ''failed to refresh token: %v'' [ArgError err]), k, w3)"
  by (simp add: doRequest_def Let_def Do_def)

lemma doRequest_retried:
  "Transport (client k) (Sent w) (with_bearer (token k) req) = Inr resp
   \<Longrightarrow> StatusCode resp = StatusUnauthorized
   \<Longrightarrow> getAdminToken L k (log_write token_expired (sending (with_bearer (token k) req) w))
        = ((tok, None), w3)
   \<Longrightarrow> doRequest L req k w =
        (case Do (client k) (with_bearer tok (consumed req)) w3 of
           (r, req4, w4) \<Rightarrow> (r, k\<lparr>token := tok\<rparr>, w4))"
  by (simp add: doRequest_def Let_def Do_def Header_Set_twice consumed_def split: sum.splits)

lemmas fixture_defs =
  test_lib_def test_service_def test_cfg_def fresh_world_def users_request_def
  token_url_def admin_url_def token_json_def error_json_def answer_def
  refused_def always_401_def never_accepts_def expired_once_def lenient_backend_def
  getAdminToken_def doRequest_def Do_def consumed_def urlErrorOp_def ascii_lower_def
  NewRequest_def ReadAll_def log_write_def
  Header_Set_def Header_Add_def Header_Get_def Let_def

section \<open>The single retry of \<^verbatim>\<open>doRequest\<close>\<close>

text \<open>
  C1, as the code has it. When the first answer to a request is 401 Unauthorized,
  \<^verbatim>\<open>doRequest\<close> asks for a new admin token. If that succeeds, it stores the token, hands the
  request object to the client a second time with the new credential, and returns the
  outcome of that second send as it is, response or error: the calls it has issued are the
  first send, one token call and the second send, and nothing more. The second send is of
  the request as the first send left it, which for a request without a body is the request
  itself. If the token cannot be acquired, the request is not sent a second time and
  \<^verbatim>\<open>doRequest\<close> returns the error \<^verbatim>\<open>failed to refresh token\<close>, having issued the first send and
  at most one token call.
\<close>

theorem doRequest_unauthorized_retry_once:
  assumes first: "Transport (client k) (Sent w) (with_bearer (token k) req) = Inr resp"
      and unauth: "StatusCode resp = StatusUnauthorized"
      and acq: "getAdminToken L k (log_write token_expired (sending (with_bearer (token k) req) w))
                  = ((tok, err), w3)"
  shows "(err = None \<longrightarrow>
            doRequest L req k w =
              (case Do (client k) (with_bearer tok (consumed req)) w3 of
                 (r, req4, w4) \<Rightarrow> (r, k\<lparr>token := tok\<rparr>, w4))
          \<and> (\<exists>treq. URL treq = token_endpoint (config k) \<and>
                Sent (snd (snd (doRequest L req k w)))
                  = Sent w @ [with_bearer (token k) req, treq, with_bearer tok (consumed req)])
          \<and> (ReqBody req = None \<longrightarrow> consumed req = req))
       \<and> (\<forall>e. err = Some e \<longrightarrow>
            doRequest L req k w = (Inl (Errorf ''failed to refresh token: %v'' [ArgError e]), k, w3)
          \<and> (Sent w3 = Sent w @ [with_bearer (token k) req]
               \<or> (\<exists>treq. URL treq = token_endpoint (config k) \<and>
                     Sent w3 = Sent w @ [with_bearer (token k) req, treq])))"
proof (intro conjI impI allI)
  assume ok: "err = None"
  with acq have acq': "getAdminToken L k (log_write token_expired (sending (with_bearer (token k) req) w))
                  = ((tok, None), w3)" by simp
  show eq: "doRequest L req k w =
              (case Do (client k) (with_bearer tok (consumed req)) w3 of
                 (r, req4, w4) \<Rightarrow> (r, k\<lparr>token := tok\<rparr>, w4))"
    by (rule doRequest_retried [OF first unauth acq'])
  from getAdminToken_Sent_ok [OF acq'] obtain treq where
    "Sent w3 = Sent w @ [with_bearer (token k) req, treq]" "URL treq = token_endpoint (config k)"
    by (auto simp: log_write_def)
  then show "\<exists>treq. URL treq = token_endpoint (config k) \<and>
                Sent (snd (snd (doRequest L req k w)))
                  = Sent w @ [with_bearer (token k) req, treq, with_bearer tok (consumed req)]"
    by (auto simp: eq Do_def split: sum.splits)
next
  assume "ReqBody req = None"
  then show "consumed req = req" by (rule consumed_no_body)
next
  fix e assume bad: "err = Some e"
  with acq have acq': "getAdminToken L k (log_write token_expired (sending (with_bearer (token k) req) w))
                  = ((tok, Some e), w3)" by simp
  show "doRequest L req k w = (Inl (Errorf ''failed to refresh token: %v'' [ArgError e]), k, w3)"
    by (rule doRequest_refresh_failed [OF first unauth acq'])
  from getAdminToken_Sent_any [OF acq']
  show "Sent w3 = Sent w @ [with_bearer (token k) req]
               \<or> (\<exists>treq. URL treq = token_endpoint (config k) \<and>
                     Sent w3 = Sent w @ [with_bearer (token k) req, treq])"
    by (auto simp: log_write_def)
qed

text \<open>
  Against a backend that hands out tokens and answers 401 to every other call, a request
  without a body is sent exactly twice and the second 401 is what \<^verbatim>\<open>doRequest\<close> returns.
\<close>

theorem doRequest_unauthorized_retry_once_witness:
  "fst (doRequest (test_lib never_accepts) users_request (test_service never_accepts) fresh_world)
     = answer 401 []
   \<and> token (fst (snd (doRequest (test_lib never_accepts) users_request (test_service never_accepts) fresh_world)))
     = ''fresh-token''
   \<and> Sent (snd (snd (doRequest (test_lib never_accepts) users_request (test_service never_accepts) fresh_world)))
     = [with_bearer ''dummy-token'' users_request, token_request,
        with_bearer ''fresh-token'' users_request]"
proof -
  let ?k = "test_service never_accepts" and ?L = "test_lib never_accepts"
  let ?w3 = "\<lparr>Sent = [with_bearer ''dummy-token'' users_request, token_request], Log = [token_expired]\<rparr>"
  have first: "Transport (client ?k) (Sent fresh_world) (with_bearer (token ?k) users_request)
                 = Inr \<lparr>StatusCode = 401, Body = \<lparr>Data = [], Err = None\<rparr>\<rparr>"
    by (simp add: fixture_defs)
  have acq: "getAdminToken ?L ?k (log_write token_expired
               (sending (with_bearer (token ?k) users_request) fresh_world))
             = ((''fresh-token'', None), ?w3)"
    by (simp add: fixture_defs token_request_def)
  have "doRequest ?L users_request ?k fresh_world =
          (case Do (client ?k) (with_bearer ''fresh-token'' (consumed users_request)) ?w3 of
             (r, req4, w4) \<Rightarrow> (r, ?k\<lparr>token := ''fresh-token''\<rparr>, w4))"
    using doRequest_unauthorized_retry_once [OF first _ acq] by simp
  then show ?thesis
    by (simp add: test_service_def never_accepts_def answer_def token_url_def users_request_def
                  Do_def consumed_def)
qed

text \<open>
  Against a backend that answers 401 to every call, the token call included, the request
  is sent once and never again: the second call is the token call, and what comes back is
  an error, not a second response.
\<close>

theorem doRequest_always_401_counterexample:
  "always_401 [] (with_bearer ''dummy-token'' users_request) = answer 401 []
   \<and> fst (doRequest (test_lib always_401) users_request (test_service always_401) fresh_world)
     = Inl (Errorf ''failed to refresh token: %v''
             [ArgError (Errorf ''failed to get token, status: %d, response: %s %s''
                          [ArgInt 401, ArgString [], ArgString ''admin''])])
   \<and> Sent (snd (snd (doRequest (test_lib always_401) users_request (test_service always_401) fresh_world)))
     = [with_bearer ''dummy-token'' users_request, token_request]"
  by (simp add: fixture_defs token_request_def)

section \<open>The body of the retried request\<close>

lemmas expired_defs = fixture_defs expired_backend_def fresh_connection_def create_request_def
  render_User_def johndoe_def CreateUser_def

text \<open>
  C2 at a request with a body. The service holds an expired token and is asked to create
  the user johndoe. The backend answers 401 to the first send, hands out a new token, and
  would answer 201 to the request carrying its body and the new token. The retry hands the
  client the request whose body the first send has consumed: on a connection that has not
  been used before the send fails, nothing reaches the backend, and \<^verbatim>\<open>doRequest\<close> returns
  that error, not a success response. The new token is stored all the same.
\<close>

theorem doRequest_retry_body_consumed:
  "expired_backend [] (with_bearer ''dummy-token'' create_request) = answer 401 []
   \<and> expired_backend [] (with_bearer ''fresh-token'' create_request) = answer 201 []
   \<and> fst (doRequest (test_lib (fresh_connection expired_backend)) create_request
             (test_service (fresh_connection expired_backend)) fresh_world)
       = Inl (url_Error ''Post'' ''http://kc/admin/realms/master/users''
                (Errorf ''http: ContentLength=%d with Body length %d'' [ArgInt 93, ArgInt 0]))
   \<and> token (fst (snd (doRequest (test_lib (fresh_connection expired_backend)) create_request
                          (test_service (fresh_connection expired_backend)) fresh_world)))
       = ''fresh-token''
   \<and> map ReqBody (Sent (snd (snd (doRequest (test_lib (fresh_connection expired_backend))
                                      create_request
                                      (test_service (fresh_connection expired_backend)) fresh_world))))
       = [Some (render_User johndoe), ReqBody token_request, Some []]
   \<and> fst (CreateUser (test_lib (fresh_connection expired_backend)) johndoe
             (test_service (fresh_connection expired_backend)) fresh_world)
       = Inl (url_Error ''Post'' ''http://kc/admin/realms/master/users''
                (Errorf ''http: ContentLength=%d with Body length %d'' [ArgInt 93, ArgInt 0]))"
  by (simp add: expired_defs token_request_def)

section \<open>What \<^verbatim>\<open>doRequest\<close> leaves alone\<close>

text \<open>
  C9. \<^verbatim>\<open>doRequest\<close> never touches the configuration or the client. The \<^verbatim>\<open>token\<close> field is
  unchanged when the first send fails in the transport, when its answer has any status
  other than 401, and when the answer is 401 but the token acquisition fails. Hence a
  changed token means that the first answer was 401 and the acquisition returned that token.
\<close>

theorem doRequest_token_frame:
  fixes L req k w
  defines "k' \<equiv> fst (snd (doRequest L req k w))"
  shows "config k' = config k \<and> client k' = client k
       \<and> (\<forall>err. Transport (client k) (Sent w) (with_bearer (token k) req) = Inl err
              \<longrightarrow> token k' = token k)
       \<and> (\<forall>resp. Transport (client k) (Sent w) (with_bearer (token k) req) = Inr resp
                  \<and> StatusCode resp \<noteq> StatusUnauthorized
              \<longrightarrow> token k' = token k)
       \<and> (\<forall>resp tok err w3.
              Transport (client k) (Sent w) (with_bearer (token k) req) = Inr resp
              \<and> StatusCode resp = StatusUnauthorized
              \<and> getAdminToken L k (log_write token_expired (sending (with_bearer (token k) req) w))
                  = ((tok, Some err), w3)
              \<longrightarrow> token k' = token k)
       \<and> (token k' \<noteq> token k \<longrightarrow>
            (\<exists>resp w3.
               Transport (client k) (Sent w) (with_bearer (token k) req) = Inr resp
               \<and> StatusCode resp = StatusUnauthorized
               \<and> getAdminToken L k (log_write token_expired (sending (with_bearer (token k) req) w))
                  = ((token k', None), w3)))"
  unfolding k'_def
  by (auto simp: doRequest_def Let_def Do_def split: sum.splits prod.splits if_splits option.splits)

theorem doRequest_token_frame_witness:
  "token (fst (snd (doRequest (test_lib lenient_backend) users_request (test_service lenient_backend) fresh_world)))
     = ''dummy-token''
   \<and> token (fst (snd (doRequest (test_lib refused) users_request (test_service refused) fresh_world)))
     = ''dummy-token''
   \<and> token (fst (snd (doRequest (test_lib always_401) users_request (test_service always_401) fresh_world)))
     = ''dummy-token''"
proof -
  have a: "Transport (client (test_service lenient_backend)) (Sent fresh_world)
             (with_bearer (token (test_service lenient_backend)) users_request)
           = Inr \<lparr>StatusCode = 200, Body = \<lparr>Data = [], Err = None\<rparr>\<rparr>"
    by (simp add: fixture_defs)
  have b: "Transport (client (test_service refused)) (Sent fresh_world)
             (with_bearer (token (test_service refused)) users_request)
           = Inl (LibError ''connection refused'')"
    by (simp add: fixture_defs)
  have c: "Transport (client (test_service always_401)) (Sent fresh_world)
             (with_bearer (token (test_service always_401)) users_request)
           = Inr \<lparr>StatusCode = 401, Body = \<lparr>Data = [], Err = None\<rparr>\<rparr>"
    by (simp add: fixture_defs)
  have d: "getAdminToken (test_lib always_401) (test_service always_401)
             (log_write token_expired (sending (with_bearer (token (test_service always_401)) users_request) fresh_world))
           = (([], Some (Errorf ''failed to get token, status: %d, response: %s %s''
                          [ArgInt 401, ArgString [], ArgString ''admin''])),
              \<lparr>Sent = [with_bearer ''dummy-token'' users_request, token_request], Log = [token_expired]\<rparr>)"
    by (simp add: fixture_defs token_request_def)
  have ta: "token (test_service lenient_backend) = ''dummy-token''"
   and tb: "token (test_service refused) = ''dummy-token''"
   and tc: "token (test_service always_401) = ''dummy-token''"
    by (simp_all add: test_service_def)
  show ?thesis
    using doRequest_token_frame [of "test_lib lenient_backend" users_request "test_service lenient_backend" fresh_world]
          doRequest_token_frame [of "test_lib refused" users_request "test_service refused" fresh_world]
          doRequest_token_frame [of "test_lib always_401" users_request "test_service always_401" fresh_world]
          a b c d ta tb tc
    by auto
qed

section \<open>Construction of the service\<close>





section \<open>Adding a user to a group by email\<close>

text \<open>
  C3. When the search by email returns a list of users, \<^verbatim>\<open>AddUserToGroupByEmail\<close> fails
  with \<^verbatim>\<open>no user found\<close> on the empty list, fails with \<^verbatim>\<open>multiple users found\<close> on a list of
  two or more, in both cases leaving the service and the world as the search left them, so
  that no membership call is issued, and on a list of exactly one user is
  \<^verbatim>\<open>AddUserToGroup\<close> for that user's identifier and the given group, run after the search.
\<close>

theorem AddUserToGroupByEmail_cardinality:
  assumes search: "fst (SearchUserByEmail L email k w) = Inr users"
  shows "(users = [] \<longrightarrow>
            AddUserToGroupByEmail L email groupID k w
              = (Some (Errorf ''no user found with the provided email'' []),
                 snd (SearchUserByEmail L email k w)))
       \<and> (2 \<le> length users \<longrightarrow>
            AddUserToGroupByEmail L email groupID k w
              = (Some (Errorf ''multiple users found with the provided email'' []),
                 snd (SearchUserByEmail L email k w)))
       \<and> (\<forall>u. users = [u] \<longrightarrow>
            AddUserToGroupByEmail L email groupID k w
              = AddUserToGroup L (User.ID u) groupID
                  (fst (snd (SearchUserByEmail L email k w)))
                  (snd (snd (SearchUserByEmail L email k w))))"
  using search
  by (cases "SearchUserByEmail L email k w")
     (auto simp: AddUserToGroupByEmail_def split: list.splits)

lemmas search_defs = fixture_defs SearchUserByEmail_def AddUserToGroup_def demo_backend_def
  one_user_json_def two_users_json_def groups_json_def

theorem AddUserToGroupByEmail_cardinality_witness:
  "fst (AddUserToGroupByEmail (test_lib demo_backend) ''nobody'' ''A'' (test_service demo_backend) fresh_world)
     = Some (Errorf ''no user found with the provided email'' [])
   \<and> map URL (Sent (snd (snd (AddUserToGroupByEmail (test_lib demo_backend) ''nobody'' ''A''
                                 (test_service demo_backend) fresh_world))))
     = [''http://kc/admin/realms/master/users?email=nobody'']
   \<and> fst (AddUserToGroupByEmail (test_lib demo_backend) ''twins'' ''A'' (test_service demo_backend) fresh_world)
     = Some (Errorf ''multiple users found with the provided email'' [])
   \<and> map URL (Sent (snd (snd (AddUserToGroupByEmail (test_lib demo_backend) ''twins'' ''A''
                                 (test_service demo_backend) fresh_world))))
     = [''http://kc/admin/realms/master/users?email=twins'']
   \<and> fst (AddUserToGroupByEmail (test_lib demo_backend) ''alice'' ''A'' (test_service demo_backend) fresh_world)
     = None
   \<and> map (\<lambda>r. (Method r, URL r))
         (Sent (snd (snd (AddUserToGroupByEmail (test_lib demo_backend) ''alice'' ''A''
                            (test_service demo_backend) fresh_world))))
     = [(''GET'', ''http://kc/admin/realms/master/users?email=alice''),
        (''PUT'', ''http://kc/admin/realms/master/users/1/groups/A'')]"
proof -
  let ?L = "test_lib demo_backend" and ?k = "test_service demo_backend"
  have nobody: "SearchUserByEmail ?L ''nobody'' ?k fresh_world
      = (Inr [], ?k, \<lparr>Sent = [with_bearer ''dummy-token'' (search_request ''nobody'')], Log = []\<rparr>)"
    by (simp add: search_defs search_request_def)
  have twins: "SearchUserByEmail ?L ''twins'' ?k fresh_world
      = (Inr [alice, alice2], ?k,
         \<lparr>Sent = [with_bearer ''dummy-token'' (search_request ''twins'')], Log = []\<rparr>)"
    by (simp add: search_defs search_request_def)
  have one: "SearchUserByEmail ?L ''alice'' ?k fresh_world
      = (Inr [alice], ?k, \<lparr>Sent = [with_bearer ''dummy-token'' (search_request ''alice'')], Log = []\<rparr>)"
    by (simp add: search_defs search_request_def)
  have add: "AddUserToGroup ?L ''1'' ''A'' ?k
               \<lparr>Sent = [with_bearer ''dummy-token'' (search_request ''alice'')], Log = []\<rparr>
      = (None, ?k,
         \<lparr>Sent = [with_bearer ''dummy-token'' (search_request ''alice''),
                  with_bearer ''dummy-token''
                    (plain_request ''PUT'' ''http://kc/admin/realms/master/users/1/groups/A'')],
          Log = []\<rparr>)"
    by (simp add: search_defs search_request_def)
  have "AddUserToGroupByEmail ?L ''nobody'' ''A'' ?k fresh_world
          = (Some (Errorf ''no user found with the provided email'' []), ?k,
             \<lparr>Sent = [with_bearer ''dummy-token'' (search_request ''nobody'')], Log = []\<rparr>)"
    using AddUserToGroupByEmail_cardinality [of ?L "''nobody''" ?k fresh_world "[]" "''A''"]
    by (simp add: nobody)
  moreover have "AddUserToGroupByEmail ?L ''twins'' ''A'' ?k fresh_world
          = (Some (Errorf ''multiple users found with the provided email'' []), ?k,
             \<lparr>Sent = [with_bearer ''dummy-token'' (search_request ''twins'')], Log = []\<rparr>)"
    using AddUserToGroupByEmail_cardinality [of ?L "''twins''" ?k fresh_world "[alice, alice2]" "''A''"]
    by (simp add: twins)
  moreover have "AddUserToGroupByEmail ?L ''alice'' ''A'' ?k fresh_world
          = AddUserToGroup ?L ''1'' ''A'' ?k
              \<lparr>Sent = [with_bearer ''dummy-token'' (search_request ''alice'')], Log = []\<rparr>"
    using AddUserToGroupByEmail_cardinality [of ?L "''alice''" ?k fresh_world "[alice]" "''A''"]
    by (simp add: one alice_def)
  ultimately show ?thesis
    using add by (simp add: search_request_def)
qed

section \<open>Groups with their users\<close>

lemma ListGroupsWithUsers_loop_append:
  "ListGroupsWithUsers_loop L (xs @ ys) acc k w =
     (case ListGroupsWithUsers_loop L xs acc k w of
        (Inl e, k1, w1) \<Rightarrow> (Inl e, k1, w1)
      | (Inr acc', k1, w1) \<Rightarrow> ListGroupsWithUsers_loop L ys acc' k1 w1)"
  by (induction xs arbitrary: acc k w) (auto split: prod.splits sum.splits)

lemma ListGroupsWithUsers_loop_result:
  "ListGroupsWithUsers_loop L gs acc k w = (Inr res, k', w') \<Longrightarrow>
   \<exists>new. res = acc @ new \<and> map Group new = gs"
proof (induction gs arbitrary: acc k w)
  case Nil
  then show ?case by simp
next
  case (Cons g gs)
  then show ?case
    by (fastforce split: prod.splits sum.splits)
qed

lemma ListGroupsWithUsers_loop_first_failure:
  "ListGroupsWithUsers_loop L gs acc k w = (Inl e, k', w') \<Longrightarrow>
   \<exists>pre g post acc1 k1 w1 err.
     gs = pre @ g # post
     \<and> ListGroupsWithUsers_loop L pre acc k w = (Inr acc1, k1, w1)
     \<and> ListGroupUsers L (Group.ID g) k1 w1 = (Inl err, k', w')
     \<and> e = Errorf ''failed to get users for group %s: %v'' [ArgString (Group.ID g), ArgError err]"
proof (induction gs arbitrary: acc k w)
  case Nil
  then show ?case by simp
next
  case (Cons g gs)
  show ?case
  proof (cases "ListGroupUsers L (Group.ID g) k w")
    case (fields r k1 w1)
    show ?thesis
    proof (cases r)
      case (Inl err)
      with fields Cons.prems
      have "g # gs = [] @ g # gs"
           "ListGroupsWithUsers_loop L [] acc k w = (Inr acc, k, w)"
           "ListGroupUsers L (Group.ID g) k w = (Inl err, k', w')"
           "e = Errorf ''failed to get users for group %s: %v'' [ArgString (Group.ID g), ArgError err]"
        by auto
      then show ?thesis by blast
    next
      case (Inr users)
      with fields Cons.prems
      have rest: "ListGroupsWithUsers_loop L gs (acc @ [\<lparr>Group = g, Users = users\<rparr>]) k1 w1 = (Inl e, k', w')"
        by simp
      from Cons.IH [OF rest] obtain pre g' post acc1 k2 w2 err where
        d: "gs = pre @ g' # post"
           "ListGroupsWithUsers_loop L pre (acc @ [\<lparr>Group = g, Users = users\<rparr>]) k1 w1 = (Inr acc1, k2, w2)"
           "ListGroupUsers L (Group.ID g') k2 w2 = (Inl err, k', w')"
           "e = Errorf ''failed to get users for group %s: %v'' [ArgString (Group.ID g'), ArgError err]"
        by blast
      have "g # gs = (g # pre) @ g' # post" using d(1) by simp
      moreover have "ListGroupsWithUsers_loop L (g # pre) acc k w = (Inr acc1, k2, w2)"
        using fields Inr d(2) by simp
      ultimately show ?thesis using d(3,4) by blast
    qed
  qed
qed

lemma ListGroupsWithUsers_loop_nth:
  assumes run: "ListGroupsWithUsers_loop L gs [] k w = (Inr res, k', w')" and i: "i < length gs"
  shows "\<exists>acc1 k1 w1 k2 w2.
           ListGroupsWithUsers_loop L (take i gs) [] k w = (Inr acc1, k1, w1)
           \<and> ListGroupUsers L (Group.ID (gs ! i)) k1 w1 = (Inr (Users (res ! i)), k2, w2)
           \<and> Group (res ! i) = gs ! i"
proof -
  have split: "gs = take i gs @ (gs ! i) # drop (Suc i) gs"
    using i by (simp add: id_take_nth_drop)
  obtain r1 k1 w1 where pre: "ListGroupsWithUsers_loop L (take i gs) [] k w = (r1, k1, w1)"
    by (cases "ListGroupsWithUsers_loop L (take i gs) [] k w") auto
  have whole: "ListGroupsWithUsers_loop L (take i gs @ (gs ! i) # drop (Suc i) gs) [] k w = (Inr res, k', w')"
    using run split by simp
  from whole pre obtain acc1 where r1: "r1 = Inr acc1"
    by (cases r1) (auto simp: ListGroupsWithUsers_loop_append)
  from ListGroupsWithUsers_loop_result [OF pre [unfolded r1]] i
  have len: "length acc1 = i"
    by (auto dest!: arg_cong [where f = length])
  obtain r2 k2 w2 where fetch: "ListGroupUsers L (Group.ID (gs ! i)) k1 w1 = (r2, k2, w2)"
    by (cases "ListGroupUsers L (Group.ID (gs ! i)) k1 w1") auto
  from whole pre r1 fetch obtain users where r2: "r2 = Inr users"
    and rest: "ListGroupsWithUsers_loop L (drop (Suc i) gs)
                 (acc1 @ [\<lparr>Group = gs ! i, Users = users\<rparr>]) k2 w2 = (Inr res, k', w')"
    by (cases r2) (auto simp: ListGroupsWithUsers_loop_append)
  from ListGroupsWithUsers_loop_result [OF rest] obtain new where
    "res = (acc1 @ [\<lparr>Group = gs ! i, Users = users\<rparr>]) @ new" by blast
  then have "res ! i = \<lparr>Group = gs ! i, Users = users\<rparr>"
    using len by (simp add: nth_append)
  then show ?thesis using pre r1 fetch r2 by simp
qed

text \<open>
  C4. After \<^verbatim>\<open>ListGroups\<close> has returned the groups, \<^verbatim>\<open>ListGroupsWithUsers\<close> fetches the
  members of each group in the order of that list, each fetch starting in the state in
  which the one before it ended.
  \<^item> If it returns a list, that list has one entry per group, in the order of the listing,
    the entry at each position holds the users that the fetch for that group returned, and
    the state it ends in is the state after the fetch for the last group.
  \<^item> If it returns an error, the fetch for some group failed after the fetches for all
    groups before it had succeeded; the error is \<^verbatim>\<open>failed to get users for group\<close> with that
    group's identifier and the error of the fetch; no list is returned; and the state it
    ends in is the state in which the failed fetch ended, so that nothing is fetched for the
    groups after it.
  \<^item> Conversely, whenever the fetch for a group fails after the fetches for all groups
    before it have succeeded, that error and that state are the result.
  \<^item> For two groups A and B: when the fetch for A fails, the result is the error naming A
    in the state after that one fetch; when the fetch for A succeeds and the fetch for B
    fails, it is the error naming B; and when both succeed it is the two entries, A's first.
\<close>

theorem ListGroupsWithUsers_ordered_or_aborted:
  assumes listing: "ListGroups L k w = (Inr groups, k0, w0)"
  shows "(\<forall>res k' w'. ListGroupsWithUsers L k w = (Inr res, k', w') \<longrightarrow>
            map Group res = groups
            \<and> ListGroupsWithUsers_loop L groups [] k0 w0 = (Inr res, k', w')
            \<and> (groups = [] \<longrightarrow> k' = k0 \<and> w' = w0)
            \<and> (\<forall>i<length groups. \<exists>acc1 k1 w1 k2 w2.
                  ListGroupsWithUsers_loop L (take i groups) [] k0 w0 = (Inr acc1, k1, w1)
                  \<and> ListGroupUsers L (Group.ID (groups ! i)) k1 w1 = (Inr (Users (res ! i)), k2, w2)
                  \<and> ListGroupsWithUsers_loop L (take (Suc i) groups) [] k0 w0
                      = (Inr (acc1 @ [res ! i]), k2, w2)))
       \<and> (\<forall>e k' w'. ListGroupsWithUsers L k w = (Inl e, k', w') \<longrightarrow>
            (\<exists>pre g post acc1 k1 w1 err.
               groups = pre @ g # post
               \<and> ListGroupsWithUsers_loop L pre [] k0 w0 = (Inr acc1, k1, w1)
               \<and> ListGroupUsers L (Group.ID g) k1 w1 = (Inl err, k', w')
               \<and> e = Errorf ''failed to get users for group %s: %v''
                       [ArgString (Group.ID g), ArgError err]))
       \<and> (\<forall>pre g post acc1 k1 w1 err k2 w2.
            groups = pre @ g # post
            \<and> ListGroupsWithUsers_loop L pre [] k0 w0 = (Inr acc1, k1, w1)
            \<and> ListGroupUsers L (Group.ID g) k1 w1 = (Inl err, k2, w2)
            \<longrightarrow> ListGroupsWithUsers L k w
                  = (Inl (Errorf ''failed to get users for group %s: %v''
                            [ArgString (Group.ID g), ArgError err]), k2, w2))
       \<and> (\<forall>a b err k1 w1.
            groups = [a, b]
            \<and> ListGroupUsers L (Group.ID a) k0 w0 = (Inl err, k1, w1)
            \<longrightarrow> ListGroupsWithUsers L k w
                  = (Inl (Errorf ''failed to get users for group %s: %v''
                            [ArgString (Group.ID a), ArgError err]), k1, w1))
       \<and> (\<forall>a b users k1 w1 err k2 w2.
            groups = [a, b]
            \<and> ListGroupUsers L (Group.ID a) k0 w0 = (Inr users, k1, w1)
            \<and> ListGroupUsers L (Group.ID b) k1 w1 = (Inl err, k2, w2)
            \<longrightarrow> ListGroupsWithUsers L k w
                  = (Inl (Errorf ''failed to get users for group %s: %v''
                            [ArgString (Group.ID b), ArgError err]), k2, w2))
       \<and> (\<forall>a b users k1 w1 users' k2 w2.
            groups = [a, b]
            \<and> ListGroupUsers L (Group.ID a) k0 w0 = (Inr users, k1, w1)
            \<and> ListGroupUsers L (Group.ID b) k1 w1 = (Inr users', k2, w2)
            \<longrightarrow> ListGroupsWithUsers L k w
                  = (Inr [\<lparr>Group = a, Users = users\<rparr>, \<lparr>Group = b, Users = users'\<rparr>], k2, w2))"
proof -
  have unfold: "ListGroupsWithUsers L k w = ListGroupsWithUsers_loop L groups [] k0 w0"
    using listing by (simp add: ListGroupsWithUsers_def)
  have ok: "map Group res = groups
            \<and> ListGroupsWithUsers_loop L groups [] k0 w0 = (Inr res, k', w')
            \<and> (groups = [] \<longrightarrow> k' = k0 \<and> w' = w0)
            \<and> (\<forall>i<length groups. \<exists>acc1 k1 w1 k2 w2.
                  ListGroupsWithUsers_loop L (take i groups) [] k0 w0 = (Inr acc1, k1, w1)
                  \<and> ListGroupUsers L (Group.ID (groups ! i)) k1 w1 = (Inr (Users (res ! i)), k2, w2)
                  \<and> ListGroupsWithUsers_loop L (take (Suc i) groups) [] k0 w0
                      = (Inr (acc1 @ [res ! i]), k2, w2))"
    if "ListGroupsWithUsers L k w = (Inr res, k', w')" for res k' w'
  proof -
    have run: "ListGroupsWithUsers_loop L groups [] k0 w0 = (Inr res, k', w')"
      using that unfold by simp
    have "map Group res = groups"
      using ListGroupsWithUsers_loop_result [OF run] by auto
    moreover have "groups = [] \<longrightarrow> k' = k0 \<and> w' = w0"
      using run by auto
    moreover have "\<exists>acc1 k1 w1 k2 w2.
                  ListGroupsWithUsers_loop L (take i groups) [] k0 w0 = (Inr acc1, k1, w1)
                  \<and> ListGroupUsers L (Group.ID (groups ! i)) k1 w1 = (Inr (Users (res ! i)), k2, w2)
                  \<and> ListGroupsWithUsers_loop L (take (Suc i) groups) [] k0 w0
                      = (Inr (acc1 @ [res ! i]), k2, w2)"
      if "i < length groups" for i
    proof -
      from ListGroupsWithUsers_loop_nth [OF run that] obtain acc1 k1 w1 k2 w2 where
        pre: "ListGroupsWithUsers_loop L (take i groups) [] k0 w0 = (Inr acc1, k1, w1)"
        and fetch: "ListGroupUsers L (Group.ID (groups ! i)) k1 w1 = (Inr (Users (res ! i)), k2, w2)"
        and grp: "Group (res ! i) = groups ! i"
        by blast
      have "take (Suc i) groups = take i groups @ [groups ! i]"
        using that by (simp add: take_Suc_conv_app_nth)
      then have "ListGroupsWithUsers_loop L (take (Suc i) groups) [] k0 w0
                   = (Inr (acc1 @ [\<lparr>Group = groups ! i, Users = Users (res ! i)\<rparr>]), k2, w2)"
        using pre fetch by (simp add: ListGroupsWithUsers_loop_append)
      moreover have "\<lparr>Group = groups ! i, Users = Users (res ! i)\<rparr> = res ! i"
        using grp by (cases "res ! i") simp
      ultimately show ?thesis using pre fetch by auto
    qed
    ultimately show ?thesis using run by blast
  qed
  have bad: "\<exists>pre g post acc1 k1 w1 err.
               groups = pre @ g # post
               \<and> ListGroupsWithUsers_loop L pre [] k0 w0 = (Inr acc1, k1, w1)
               \<and> ListGroupUsers L (Group.ID g) k1 w1 = (Inl err, k', w')
               \<and> e = Errorf ''failed to get users for group %s: %v''
                       [ArgString (Group.ID g), ArgError err]"
    if "ListGroupsWithUsers L k w = (Inl e, k', w')" for e k' w'
  proof -
    have run: "ListGroupsWithUsers_loop L groups [] k0 w0 = (Inl e, k', w')"
      using that unfold by simp
    from ListGroupsWithUsers_loop_first_failure [OF run] show ?thesis by blast
  qed
  have abort: "ListGroupsWithUsers L k w
                  = (Inl (Errorf ''failed to get users for group %s: %v''
                            [ArgString (Group.ID g), ArgError err]), k2, w2)"
    if "groups = pre @ g # post" "ListGroupsWithUsers_loop L pre [] k0 w0 = (Inr acc1, k1, w1)"
       "ListGroupUsers L (Group.ID g) k1 w1 = (Inl err, k2, w2)"
    for pre g post acc1 k1 w1 err k2 w2
    using that unfold by (simp add: ListGroupsWithUsers_loop_append)
  have two_first: "ListGroupsWithUsers L k w
                  = (Inl (Errorf ''failed to get users for group %s: %v''
                            [ArgString (Group.ID a), ArgError err]), k1, w1)"
    if "groups = [a, b]" "ListGroupUsers L (Group.ID a) k0 w0 = (Inl err, k1, w1)"
    for a b err k1 w1
    using that unfold by simp
  have two_bad: "ListGroupsWithUsers L k w
                  = (Inl (Errorf ''failed to get users for group %s: %v''
                            [ArgString (Group.ID b), ArgError err]), k2, w2)"
    if "groups = [a, b]" "ListGroupUsers L (Group.ID a) k0 w0 = (Inr users, k1, w1)"
       "ListGroupUsers L (Group.ID b) k1 w1 = (Inl err, k2, w2)"
    for a b users k1 w1 err k2 w2
    using that unfold by simp
  have two_ok: "ListGroupsWithUsers L k w
                  = (Inr [\<lparr>Group = a, Users = users\<rparr>, \<lparr>Group = b, Users = users'\<rparr>], k2, w2)"
    if "groups = [a, b]" "ListGroupUsers L (Group.ID a) k0 w0 = (Inr users, k1, w1)"
       "ListGroupUsers L (Group.ID b) k1 w1 = (Inr users', k2, w2)"
    for a b users k1 w1 users' k2 w2
    using that unfold by simp
  show ?thesis
    apply (intro conjI)
         apply (intro allI impI, rule ok, assumption)
        apply (intro allI impI, rule bad, assumption)
       apply (intro allI impI, elim conjE, rule abort; assumption)
      apply (intro allI impI, elim conjE, rule two_first; assumption)
     apply (intro allI impI, elim conjE, rule two_bad; assumption)
    apply (intro allI impI, elim conjE, rule two_ok; assumption)
    done
qed

lemmas groups_defs = fixture_defs ListGroups_def ListGroupUsers_def demo_backend_def full_backend_def
  reversed_backend_def one_user_json_def two_users_json_def groups_json_def groups_rev_json_def

text \<open>
  Three runs. With the listing A, B and no members for B, the error names B after three
  requests. With the listing B, A the fetch for B fails first: the error names B after two
  requests, and the members of A are never asked for. With members for both groups the
  result is the two entries in the order of the listing.
\<close>

theorem ListGroupsWithUsers_ordered_or_aborted_witness:
  "ListGroupsWithUsers (test_lib demo_backend) (test_service demo_backend) fresh_world
     = (Inl (Errorf ''failed to get users for group %s: %v''
               [ArgString ''B'',
                ArgError (Errorf ''failed to list group users: %v''
                            [ArgMap [(''error'', JString ''boom'')]])]),
        test_service demo_backend,
        \<lparr>Sent = [get_request ''/groups'', get_request ''/groups/A/members'',
                 get_request ''/groups/B/members''], Log = []\<rparr>)
   \<and> ListGroupsWithUsers (test_lib reversed_backend) (test_service reversed_backend) fresh_world
     = (Inl (Errorf ''failed to get users for group %s: %v''
               [ArgString ''B'',
                ArgError (Errorf ''failed to list group users: %v''
                            [ArgMap [(''error'', JString ''boom'')]])]),
        test_service reversed_backend,
        \<lparr>Sent = [get_request ''/groups'', get_request ''/groups/B/members''], Log = []\<rparr>)
   \<and> ListGroupsWithUsers (test_lib full_backend) (test_service full_backend) fresh_world
     = (Inr [\<lparr>Group = group_A, Users = [alice]\<rparr>, \<lparr>Group = group_B, Users = []\<rparr>],
        test_service full_backend,
        \<lparr>Sent = [get_request ''/groups'', get_request ''/groups/A/members'',
                 get_request ''/groups/B/members''], Log = []\<rparr>)"
proof -
  let ?w0 = "\<lparr>Sent = [get_request ''/groups''], Log = []\<rparr>"
  let ?w1 = "\<lparr>Sent = [get_request ''/groups'', get_request ''/groups/A/members''], Log = []\<rparr>"
  let ?w2 = "\<lparr>Sent = [get_request ''/groups'', get_request ''/groups/A/members'',
                        get_request ''/groups/B/members''], Log = []\<rparr>"
  let ?v1 = "\<lparr>Sent = [get_request ''/groups'', get_request ''/groups/B/members''], Log = []\<rparr>"
  let ?boom = "Errorf ''failed to list group users: %v'' [ArgMap [(''error'', JString ''boom'')]]"
  have l1: "ListGroups (test_lib demo_backend) (test_service demo_backend) fresh_world
          = (Inr [group_A, group_B], test_service demo_backend, ?w0)"
    by (simp add: groups_defs get_request_def)
  have a1: "ListGroupUsers (test_lib demo_backend) (Group.ID group_A) (test_service demo_backend) ?w0
          = (Inr [alice], test_service demo_backend, ?w1)"
    by (simp add: groups_defs get_request_def group_A_def)
  have b1: "ListGroupUsers (test_lib demo_backend) (Group.ID group_B) (test_service demo_backend) ?w1
          = (Inl ?boom, test_service demo_backend, ?w2)"
    by (simp add: groups_defs get_request_def group_B_def)
  have l2: "ListGroups (test_lib full_backend) (test_service full_backend) fresh_world
          = (Inr [group_A, group_B], test_service full_backend, ?w0)"
    by (simp add: groups_defs get_request_def)
  have a2: "ListGroupUsers (test_lib full_backend) (Group.ID group_A) (test_service full_backend) ?w0
          = (Inr [alice], test_service full_backend, ?w1)"
    by (simp add: groups_defs get_request_def group_A_def)
  have b2: "ListGroupUsers (test_lib full_backend) (Group.ID group_B) (test_service full_backend) ?w1
          = (Inr [], test_service full_backend, ?w2)"
    by (simp add: groups_defs get_request_def group_B_def)
  have l3: "ListGroups (test_lib reversed_backend) (test_service reversed_backend) fresh_world
          = (Inr [group_B, group_A], test_service reversed_backend, ?w0)"
    by (simp add: groups_defs get_request_def)
  have b3: "ListGroupUsers (test_lib reversed_backend) (Group.ID group_B) (test_service reversed_backend) ?w0
          = (Inl ?boom, test_service reversed_backend, ?v1)"
    by (simp add: groups_defs get_request_def group_B_def)
  have gB: "Group.ID group_B = ''B''" by (simp add: group_B_def)
  have "ListGroupsWithUsers (test_lib demo_backend) (test_service demo_backend) fresh_world
          = (Inl (Errorf ''failed to get users for group %s: %v'' [ArgString ''B'', ArgError ?boom]),
             test_service demo_backend, ?w2)"
    using ListGroupsWithUsers_ordered_or_aborted
            [OF l1, THEN conjunct2, THEN conjunct2, THEN conjunct2, THEN conjunct2, THEN conjunct1,
             rule_format, OF conjI [OF refl conjI [OF a1 b1]]]
    by (simp add: gB)
  moreover
  have "ListGroupsWithUsers (test_lib reversed_backend) (test_service reversed_backend) fresh_world
          = (Inl (Errorf ''failed to get users for group %s: %v'' [ArgString ''B'', ArgError ?boom]),
             test_service reversed_backend, ?v1)"
    using ListGroupsWithUsers_ordered_or_aborted
            [OF l3, THEN conjunct2, THEN conjunct2, THEN conjunct2, THEN conjunct1,
             rule_format, OF conjI [OF refl b3]]
    by (simp add: gB)
  moreover
  have "ListGroupsWithUsers (test_lib full_backend) (test_service full_backend) fresh_world
          = (Inr [\<lparr>Group = group_A, Users = [alice]\<rparr>, \<lparr>Group = group_B, Users = []\<rparr>],
             test_service full_backend, ?w2)"
    using ListGroupsWithUsers_ordered_or_aborted
            [OF l2, THEN conjunct2, THEN conjunct2, THEN conjunct2, THEN conjunct2, THEN conjunct2,
             rule_format, OF conjI [OF refl conjI [OF a2 b2]]]
    by simp
  ultimately show ?thesis by simp
qed

section \<open>Accepted statuses of the write operations\<close>

text \<open>
  C5. Once the user or group has been serialised, the request built and \<^verbatim>\<open>doRequest\<close> has
  handed back a response, \<^verbatim>\<open>UpdateUser\<close> and \<^verbatim>\<open>UpdateGroup\<close> return a value exactly when the
  status of that response is 204 No Content, and the value is their input. With any other
  status, 200 OK included, they return the error \<^verbatim>\<open>failed to update\<close> carrying the status
  and the body.
\<close>

theorem update_succeeds_iff_204:
  "(\<forall>payload resp k1 w1.
      Marshal_User L user = Inr payload
      \<and> url_Parse L (admin_realm k @ ''/users/'' @ id') = None
      \<and> doRequest L (json_request ''PUT'' (admin_realm k @ ''/users/'' @ id') payload) k w
           = (Inr resp, k1, w1)
      \<longrightarrow> ((\<exists>u. fst (UpdateUser L id' user k w) = Inr u) \<longleftrightarrow> StatusCode resp = StatusNoContent)
          \<and> (StatusCode resp = StatusNoContent \<longrightarrow> UpdateUser L id' user k w = (Inr user, k1, w1))
          \<and> (StatusCode resp = StatusOK \<longrightarrow>
                UpdateUser L id' user k w
                  = (Inl (Errorf ''failed to update user, status: %d, response: %s''
                            [ArgInt 200, ArgString (Data (Body resp))]), k1, w1)))
   \<and> (\<forall>payload resp k1 w1.
      Marshal_Group L grp = Inr payload
      \<and> url_Parse L (admin_realm k @ ''/groups/'' @ id') = None
      \<and> doRequest L (json_request ''PUT'' (admin_realm k @ ''/groups/'' @ id') payload) k w
           = (Inr resp, k1, w1)
      \<longrightarrow> ((\<exists>g. fst (UpdateGroup L id' grp k w) = Inr g) \<longleftrightarrow> StatusCode resp = StatusNoContent)
          \<and> (StatusCode resp = StatusNoContent \<longrightarrow> UpdateGroup L id' grp k w = (Inr grp, k1, w1))
          \<and> (StatusCode resp = StatusOK \<longrightarrow>
                UpdateGroup L id' grp k w
                  = (Inl (Errorf ''failed to update group, status: %d, response: %s''
                            [ArgInt 200, ArgString (Data (Body resp))]), k1, w1)))"
  by (auto simp: UpdateUser_def UpdateGroup_def NewRequest_def ReadAll_def Let_def)

lemmas write_defs = fixture_defs demo_backend_def write_backend_request_def
  render_User_def render_Group_def alice_def johndoe_def group_A_def

theorem update_succeeds_iff_204_witness:
  "UpdateUser (test_lib demo_backend) ''1'' alice (test_service demo_backend) fresh_world
     = (Inr alice, test_service demo_backend,
        \<lparr>Sent = [write_backend_request ''PUT'' ''/users/1'' (render_User alice)], Log = []\<rparr>)
   \<and> UpdateGroup (test_lib lenient_backend) ''A'' group_A (test_service lenient_backend) fresh_world
     = (Inl (Errorf ''failed to update group, status: %d, response: %s'' [ArgInt 200, ArgString []]),
        test_service lenient_backend,
        \<lparr>Sent = [write_backend_request ''PUT'' ''/groups/A'' (render_Group group_A)], Log = []\<rparr>)"
proof -
  let ?L = "test_lib demo_backend" and ?k = "test_service demo_backend"
  let ?L' = "test_lib lenient_backend" and ?k' = "test_service lenient_backend"
  have m1: "Marshal_User ?L alice = Inr (render_User alice)"
   and u1: "url_Parse ?L (admin_realm ?k @ ''/users/'' @ ''1'') = None"
    by (simp_all add: test_lib_def)
  have d1: "doRequest ?L (json_request ''PUT'' (admin_realm ?k @ ''/users/'' @ ''1'') (render_User alice))
              ?k fresh_world
            = (Inr \<lparr>StatusCode = 204, Body = \<lparr>Data = [], Err = None\<rparr>\<rparr>, ?k,
               \<lparr>Sent = [write_backend_request ''PUT'' ''/users/1'' (render_User alice)], Log = []\<rparr>)"
    by (simp add: write_defs)
  have m2: "Marshal_Group ?L' group_A = Inr (render_Group group_A)"
   and u2: "url_Parse ?L' (admin_realm ?k' @ ''/groups/'' @ ''A'') = None"
    by (simp_all add: test_lib_def)
  have d2: "doRequest ?L' (json_request ''PUT'' (admin_realm ?k' @ ''/groups/'' @ ''A'') (render_Group group_A))
              ?k' fresh_world
            = (Inr \<lparr>StatusCode = 200, Body = \<lparr>Data = [], Err = None\<rparr>\<rparr>, ?k',
               \<lparr>Sent = [write_backend_request ''PUT'' ''/groups/A'' (render_Group group_A)], Log = []\<rparr>)"
    by (simp add: write_defs)
  show ?thesis
    using update_succeeds_iff_204 [of ?L alice ?k "''1''" fresh_world group_A] m1 u1 d1
          update_succeeds_iff_204 [of ?L' alice ?k' "''A''" fresh_world group_A] m2 u2 d2
    by simp
qed

section \<open>What a create returns\<close>

text \<open>
  C6. Once the user has been serialised, the request built and \<^verbatim>\<open>doRequest\<close> has handed back
  a response with status 201 Created or 204 No Content, \<^verbatim>\<open>CreateUser\<close> returns the user it
  was given, every field as submitted, the identifier included. The body of the response
  is not looked at, so this holds for the empty body.
\<close>

theorem CreateUser_returns_input:
  assumes "Marshal_User L user = Inr payload"
      and "url_Parse L (admin_realm k @ ''/users'') = None"
      and "doRequest L (json_request ''POST'' (admin_realm k @ ''/users'') payload) k w
             = (Inr resp, k1, w1)"
      and "StatusCode resp = StatusCreated \<or> StatusCode resp = StatusNoContent"
  shows "CreateUser L user k w = (Inr user, k1, w1)"
  using assms
  by (auto simp: CreateUser_def NewRequest_def Let_def)

theorem CreateUser_returns_input_witness:
  "CreateUser (test_lib demo_backend) johndoe (test_service demo_backend) fresh_world
     = (Inr \<lparr>User.ID = [], Username = ''johndoe'', Email = ''john@example.com'',
             FirstName = ''John'', LastName = ''Doe''\<rparr>,
        test_service demo_backend,
        \<lparr>Sent = [write_backend_request ''POST'' ''/users'' (render_User johndoe)], Log = []\<rparr>)"
proof -
  let ?L = "test_lib demo_backend" and ?k = "test_service demo_backend"
  have m: "Marshal_User ?L johndoe = Inr (render_User johndoe)"
   and u: "url_Parse ?L (admin_realm ?k @ ''/users'') = None"
    by (simp_all add: test_lib_def)
  have d: "doRequest ?L (json_request ''POST'' (admin_realm ?k @ ''/users'') (render_User johndoe))
              ?k fresh_world
            = (Inr \<lparr>StatusCode = 201, Body = \<lparr>Data = [], Err = None\<rparr>\<rparr>, ?k,
               \<lparr>Sent = [write_backend_request ''POST'' ''/users'' (render_User johndoe)], Log = []\<rparr>)"
    by (simp add: write_defs)
  show ?thesis
    using CreateUser_returns_input [OF m u d] by (simp add: johndoe_def)
qed

section \<open>Errors for a status that is not accepted\<close>

lemmas operation_defs =
  ListUsers_def SearchUserByEmail_def ListGroups_def ListUserGroups_def ListGroupUsers_def
  CreateUser_def UpdateUser_def CreateGroup_def UpdateGroup_def
  DeleteUser_def DeleteGroup_def AddUserToGroup_def RemoveUserFromGroup_def
  GetUser_def GetGroup_def

text \<open>
  C7, as the code has it. When \<^verbatim>\<open>doRequest\<close> hands back a response whose status the
  operation does not accept:
  \<^item> the five list and search operations, if the body could be read to its end, hand its
    text to \<^verbatim>\<open>json.Unmarshal\<close> at type \<^verbatim>\<open>map[string]interface{}\<close>; if that succeeds the error
    carries the decoded object, and otherwise it carries only the status code;
  \<^item> the create, update, delete and membership operations do not parse the body: their
    error carries the status code and the text of the body;
  \<^item> \<^verbatim>\<open>GetUser\<close> and \<^verbatim>\<open>GetGroup\<close> do not read the body: their error carries only the status
    code.
\<close>

theorem unaccepted_status_error:
  "(\<forall>resp k1 w1.
      url_Parse L (admin_realm k @ ''/users'') = None
      \<and> doRequest L (plain_request ''GET'' (admin_realm k @ ''/users'')) k w = (Inr resp, k1, w1)
      \<and> StatusCode resp \<noteq> StatusOK \<and> Err (Body resp) = None
      \<longrightarrow> ListUsers L k w
            = (Inl (case Unmarshal_map L (Data (Body resp)) of
                      Inr errResp \<Rightarrow> Errorf ''failed to list users: %v'' [ArgMap errResp]
                    | Inl _ \<Rightarrow> Errorf ''failed to list users: status %d, unable to parse error''
                                [ArgInt (StatusCode resp)]), k1, w1))
   \<and> (\<forall>resp k1 w1.
      url_Parse L (admin_realm k @ ''/users?email='' @ email) = None
      \<and> doRequest L (plain_request ''GET'' (admin_realm k @ ''/users?email='' @ email)) k w = (Inr resp, k1, w1)
      \<and> StatusCode resp \<noteq> StatusOK \<and> Err (Body resp) = None
      \<longrightarrow> SearchUserByEmail L email k w
            = (Inl (case Unmarshal_map L (Data (Body resp)) of
                      Inr errResp \<Rightarrow> Errorf ''failed to search users: %v'' [ArgMap errResp]
                    | Inl _ \<Rightarrow> Errorf ''failed to search users: status %d, unable to parse error''
                                [ArgInt (StatusCode resp)]), k1, w1))
   \<and> (\<forall>resp k1 w1.
      url_Parse L (admin_realm k @ ''/groups'') = None
      \<and> doRequest L (plain_request ''GET'' (admin_realm k @ ''/groups'')) k w = (Inr resp, k1, w1)
      \<and> StatusCode resp \<noteq> StatusOK \<and> Err (Body resp) = None
      \<longrightarrow> ListGroups L k w
            = (Inl (case Unmarshal_map L (Data (Body resp)) of
                      Inr errResp \<Rightarrow> Errorf ''failed to list groups: %v'' [ArgMap errResp]
                    | Inl _ \<Rightarrow> Errorf ''failed to list groups: status %d, unable to parse error''
                                [ArgInt (StatusCode resp)]), k1, w1))
   \<and> (\<forall>resp k1 w1.
      url_Parse L (admin_realm k @ ''/users/'' @ userID @ ''/groups'') = None
      \<and> doRequest L (plain_request ''GET'' (admin_realm k @ ''/users/'' @ userID @ ''/groups'')) k w = (Inr resp, k1, w1)
      \<and> StatusCode resp \<noteq> StatusOK \<and> Err (Body resp) = None
      \<longrightarrow> ListUserGroups L userID k w
            = (Inl (case Unmarshal_map L (Data (Body resp)) of
                      Inr errResp \<Rightarrow> Errorf ''failed to list user groups: %v'' [ArgMap errResp]
                    | Inl _ \<Rightarrow> Errorf ''failed to list user groups: status %d, unable to parse error''
                                [ArgInt (StatusCode resp)]), k1, w1))
   \<and> (\<forall>resp k1 w1.
      url_Parse L (admin_realm k @ ''/groups/'' @ groupID @ ''/members'') = None
      \<and> doRequest L (plain_request ''GET'' (admin_realm k @ ''/groups/'' @ groupID @ ''/members'')) k w = (Inr resp, k1, w1)
      \<and> StatusCode resp \<noteq> StatusOK \<and> Err (Body resp) = None
      \<longrightarrow> ListGroupUsers L groupID k w
            = (Inl (case Unmarshal_map L (Data (Body resp)) of
                      Inr errResp \<Rightarrow> Errorf ''failed to list group users: %v'' [ArgMap errResp]
                    | Inl _ \<Rightarrow> Errorf ''failed to list group users: status %d, unable to parse error''
                                [ArgInt (StatusCode resp)]), k1, w1))
   \<and> (\<forall>payload resp k1 w1.
      Marshal_User L user = Inr payload
      \<and> url_Parse L (admin_realm k @ ''/users'') = None
      \<and> doRequest L (json_request ''POST'' (admin_realm k @ ''/users'') payload) k w = (Inr resp, k1, w1)
      \<and> StatusCode resp \<noteq> StatusCreated \<and> StatusCode resp \<noteq> StatusNoContent
      \<longrightarrow> CreateUser L user k w
            = (Inl (Errorf ''failed to create user, status: %d, response: %s''
                      [ArgInt (StatusCode resp), ArgString (Data (Body resp))]), k1, w1))
   \<and> (\<forall>payload resp k1 w1.
      Marshal_User L user = Inr payload
      \<and> url_Parse L (admin_realm k @ ''/users/'' @ id') = None
      \<and> doRequest L (json_request ''PUT'' (admin_realm k @ ''/users/'' @ id') payload) k w = (Inr resp, k1, w1)
      \<and> StatusCode resp \<noteq> StatusNoContent
      \<longrightarrow> UpdateUser L id' user k w
            = (Inl (Errorf ''failed to update user, status: %d, response: %s''
                      [ArgInt (StatusCode resp), ArgString (Data (Body resp))]), k1, w1))
   \<and> (\<forall>payload resp k1 w1.
      Marshal_Group L grp = Inr payload
      \<and> url_Parse L (admin_realm k @ ''/groups'') = None
      \<and> doRequest L (json_request ''POST'' (admin_realm k @ ''/groups'') payload) k w = (Inr resp, k1, w1)
      \<and> StatusCode resp \<noteq> StatusCreated \<and> StatusCode resp \<noteq> StatusNoContent
      \<longrightarrow> CreateGroup L grp k w
            = (Inl (Errorf ''failed to create group, status: %d, response: %s''
                      [ArgInt (StatusCode resp), ArgString (Data (Body resp))]), k1, w1))
   \<and> (\<forall>payload resp k1 w1.
      Marshal_Group L grp = Inr payload
      \<and> url_Parse L (admin_realm k @ ''/groups/'' @ id') = None
      \<and> doRequest L (json_request ''PUT'' (admin_realm k @ ''/groups/'' @ id') payload) k w = (Inr resp, k1, w1)
      \<and> StatusCode resp \<noteq> StatusNoContent
      \<longrightarrow> UpdateGroup L id' grp k w
            = (Inl (Errorf ''failed to update group, status: %d, response: %s''
                      [ArgInt (StatusCode resp), ArgString (Data (Body resp))]), k1, w1))
   \<and> (\<forall>resp k1 w1.
      url_Parse L (admin_realm k @ ''/users/'' @ id') = None
      \<and> doRequest L (plain_request ''DELETE'' (admin_realm k @ ''/users/'' @ id')) k w = (Inr resp, k1, w1)
      \<and> StatusCode resp \<noteq> StatusNoContent
      \<longrightarrow> DeleteUser L id' k w
            = (Some (Errorf ''failed to delete user, status: %d, response: %s''
                       [ArgInt (StatusCode resp), ArgString (Data (Body resp))]), k1, w1))
   \<and> (\<forall>resp k1 w1.
      url_Parse L (admin_realm k @ ''/groups/'' @ id') = None
      \<and> doRequest L (plain_request ''DELETE'' (admin_realm k @ ''/groups/'' @ id')) k w = (Inr resp, k1, w1)
      \<and> StatusCode resp \<noteq> StatusNoContent
      \<longrightarrow> DeleteGroup L id' k w
            = (Some (Errorf ''failed to delete group, status: %d, response: %s''
                       [ArgInt (StatusCode resp), ArgString (Data (Body resp))]), k1, w1))
   \<and> (\<forall>resp k1 w1.
      url_Parse L (admin_realm k @ ''/users/'' @ userID @ ''/groups/'' @ groupID) = None
      \<and> doRequest L (plain_request ''PUT'' (admin_realm k @ ''/users/'' @ userID @ ''/groups/'' @ groupID)) k w = (Inr resp, k1, w1)
      \<and> StatusCode resp \<noteq> StatusNoContent
      \<longrightarrow> AddUserToGroup L userID groupID k w
            = (Some (Errorf ''failed to add user to group, status: %d, response: %s''
                       [ArgInt (StatusCode resp), ArgString (Data (Body resp))]), k1, w1))
   \<and> (\<forall>resp k1 w1.
      url_Parse L (admin_realm k @ ''/users/'' @ userID @ ''/groups/'' @ groupID) = None
      \<and> doRequest L (plain_request ''DELETE'' (admin_realm k @ ''/users/'' @ userID @ ''/groups/'' @ groupID)) k w = (Inr resp, k1, w1)
      \<and> StatusCode resp \<noteq> StatusNoContent
      \<longrightarrow> RemoveUserFromGroup L userID groupID k w
            = (Some (Errorf ''failed to remove user from group, status: %d, response: %s''
                       [ArgInt (StatusCode resp), ArgString (Data (Body resp))]), k1, w1))
   \<and> (\<forall>resp k1 w1.
      url_Parse L (admin_realm k @ ''/users/'' @ id') = None
      \<and> doRequest L (plain_request ''GET'' (admin_realm k @ ''/users/'' @ id')) k w = (Inr resp, k1, w1)
      \<and> StatusCode resp \<noteq> StatusOK
      \<longrightarrow> GetUser L id' k w
            = (Inl (Errorf ''user not found, status: %d'' [ArgInt (StatusCode resp)]), k1, w1))
   \<and> (\<forall>resp k1 w1.
      url_Parse L (admin_realm k @ ''/groups/'' @ id') = None
      \<and> doRequest L (plain_request ''GET'' (admin_realm k @ ''/groups/'' @ id')) k w = (Inr resp, k1, w1)
      \<and> StatusCode resp \<noteq> StatusOK
      \<longrightarrow> GetGroup L id' k w
            = (Inl (Errorf ''group not found, status: %d'' [ArgInt (StatusCode resp)]), k1, w1))"
  by (intro conjI allI impI; elim conjE;
      simp add: operation_defs NewRequest_def ReadAll_def Let_def split: sum.splits)

lemmas read_defs = fixture_defs operation_defs demo_backend_def broken_backend_def get_request_def
  write_backend_request_def render_User_def johndoe_def

theorem unaccepted_status_error_witness:
  "ListUsers (test_lib demo_backend) (test_service demo_backend) fresh_world
     = (Inl (Errorf ''failed to list users: %v'' [ArgMap [(''error'', JString ''boom'')]]),
        test_service demo_backend, \<lparr>Sent = [get_request ''/users''], Log = []\<rparr>)
   \<and> ListUsers (test_lib broken_backend) (test_service broken_backend) fresh_world
     = (Inl (Errorf ''failed to list users: status %d, unable to parse error'' [ArgInt 500]),
        test_service broken_backend, \<lparr>Sent = [get_request ''/users''], Log = []\<rparr>)"
proof -
  let ?L = "test_lib demo_backend" and ?k = "test_service demo_backend"
  let ?L' = "test_lib broken_backend" and ?k' = "test_service broken_backend"
  let ?w = "\<lparr>Sent = [get_request ''/users''], Log = []\<rparr>"
  have u: "url_Parse ?L (admin_realm ?k @ ''/users'') = None"
   and u': "url_Parse ?L' (admin_realm ?k' @ ''/users'') = None"
    by (simp_all add: test_lib_def)
  have d: "doRequest ?L (plain_request ''GET'' (admin_realm ?k @ ''/users'')) ?k fresh_world
            = (Inr \<lparr>StatusCode = 500, Body = \<lparr>Data = error_json, Err = None\<rparr>\<rparr>, ?k, ?w)"
    by (simp add: fixture_defs demo_backend_def get_request_def)
  have d': "doRequest ?L' (plain_request ''GET'' (admin_realm ?k' @ ''/users'')) ?k' fresh_world
            = (Inr \<lparr>StatusCode = 500, Body = \<lparr>Data = ''Internal Server Error'', Err = None\<rparr>\<rparr>, ?k', ?w)"
    by (simp add: fixture_defs broken_backend_def get_request_def)
  have p: "Unmarshal_map ?L error_json = Inr [(''error'', JString ''boom'')]"
   and p': "Unmarshal_map ?L' ''Internal Server Error'' = Inl syntax_error"
    by (simp_all add: test_lib_def error_json_def token_json_def)
  from unaccepted_status_error [of ?L ?k fresh_world]
  have "ListUsers ?L ?k fresh_world
          = (Inl (Errorf ''failed to list users: %v'' [ArgMap [(''error'', JString ''boom'')]]), ?k, ?w)"
    using u d p by simp
  moreover from unaccepted_status_error [of ?L' ?k' fresh_world]
  have "ListUsers ?L' ?k' fresh_world
          = (Inl (Errorf ''failed to list users: status %d, unable to parse error'' [ArgInt 500]), ?k', ?w)"
    using u' d' p' by simp
  ultimately show ?thesis by simp
qed

text \<open>
  \<^verbatim>\<open>GetUser\<close> answered 500 with a body that is a JSON object returns an error with the
  status alone; \<^verbatim>\<open>CreateUser\<close> answered 500 with a body that is not JSON returns an error
  with the status and that body.
\<close>

theorem unaccepted_status_counterexample:
  "demo_backend [] (get_request ''/users/42'') = answer 500 error_json
   \<and> Unmarshal_map (test_lib demo_backend) error_json = Inr [(''error'', JString ''boom'')]
   \<and> fst (GetUser (test_lib demo_backend) ''42'' (test_service demo_backend) fresh_world)
       = Inl (Errorf ''user not found, status: %d'' [ArgInt 500])
   \<and> Unmarshal_map (test_lib broken_backend) ''Internal Server Error'' = Inl syntax_error
   \<and> fst (CreateUser (test_lib broken_backend) johndoe (test_service broken_backend) fresh_world)
       = Inl (Errorf ''failed to create user, status: %d, response: %s''
                [ArgInt 500, ArgString ''Internal Server Error''])"
  by (simp add: read_defs)

section \<open>Statuses at the request boundary\<close>

lemmas handler_defs =
  UserHandler_ListUsers_def UserHandler_CreateUser_def UserHandler_GetUser_def
  UserHandler_SearchUserByEmail_def UserHandler_UpdateUser_def UserHandler_DeleteUser_def
  GroupHandler_ListGroups_def GroupHandler_CreateGroup_def GroupHandler_ListGroupsWithUsers_def
  GroupHandler_GetGroup_def GroupHandler_UpdateGroup_def GroupHandler_DeleteGroup_def
  MembershipHandler_ListUserGroups_def MembershipHandler_AddUserToGroup_def
  MembershipHandler_AddUserToGroupByEmail_def MembershipHandler_RemoveUserFromGroup_def
  MembershipHandler_ListGroupUsers_def

text \<open>
  C8, as the code has it. A handler relays the error its service operation returned, as
  returned, in the \<^verbatim>\<open>error\<close> field of the reply, and picks the status by endpoint, not by the
  kind of error. Every error of a service operation gives 500, except in the get-user and
  get-group handlers, where every error of \<^verbatim>\<open>GetUser\<close> and \<^verbatim>\<open>GetGroup\<close>, a transport or backend
  failure included, gives 404. A body that cannot be bound and a missing required parameter
  give 400. In the add-by-email handler a search with no match gives 404 and a search with
  two or more matches gives 400.
\<close>

theorem handler_error_status:
  "(\<forall>err. fst (ListUsers L k w) = Inl err
        \<longrightarrow> fst (UserHandler_ListUsers L c k w) = JSON StatusInternalServerError (H_error (Error_of err)))
   \<and> (\<forall>err. ShouldBindJSON_User L (RequestBody c) = Inl err
        \<longrightarrow> fst (UserHandler_CreateUser L c k w) = JSON StatusBadRequest (H_error (Error_of err)))
   \<and> (\<forall>user err. ShouldBindJSON_User L (RequestBody c) = Inr user \<and> fst (CreateUser L user k w) = Inl err
        \<longrightarrow> fst (UserHandler_CreateUser L c k w) = JSON StatusInternalServerError (H_error (Error_of err)))
   \<and> (\<forall>err. fst (GetUser L (Param c ''id'') k w) = Inl err
        \<longrightarrow> fst (UserHandler_GetUser L c k w) = JSON StatusNotFound (H_error (Error_of err)))
   \<and> (Query c ''email'' = [] \<longrightarrow>
        fst (UserHandler_SearchUserByEmail L c k w)
          = JSON StatusBadRequest (H_error (Text ''email query parameter is required'')))
   \<and> (\<forall>err. Query c ''email'' \<noteq> [] \<and> fst (SearchUserByEmail L (Query c ''email'') k w) = Inl err
        \<longrightarrow> fst (UserHandler_SearchUserByEmail L c k w) = JSON StatusInternalServerError (H_error (Error_of err)))
   \<and> (\<forall>err. ShouldBindJSON_User L (RequestBody c) = Inl err
        \<longrightarrow> fst (UserHandler_UpdateUser L c k w) = JSON StatusBadRequest (H_error (Error_of err)))
   \<and> (\<forall>user err. ShouldBindJSON_User L (RequestBody c) = Inr user \<and> fst (UpdateUser L (Param c ''id'') user k w) = Inl err
        \<longrightarrow> fst (UserHandler_UpdateUser L c k w) = JSON StatusInternalServerError (H_error (Error_of err)))
   \<and> (\<forall>err. fst (DeleteUser L (Param c ''id'') k w) = Some err
        \<longrightarrow> fst (UserHandler_DeleteUser L c k w) = JSON StatusInternalServerError (H_error (Error_of err)))
   \<and> (\<forall>err. fst (ListGroups L k w) = Inl err
        \<longrightarrow> fst (GroupHandler_ListGroups L c k w) = JSON StatusInternalServerError (H_error (Error_of err)))
   \<and> (\<forall>err. ShouldBindJSON_Group L (RequestBody c) = Inl err
        \<longrightarrow> fst (GroupHandler_CreateGroup L c k w) = JSON StatusBadRequest (H_error (Error_of err)))
   \<and> (\<forall>grp err. ShouldBindJSON_Group L (RequestBody c) = Inr grp \<and> fst (CreateGroup L grp k w) = Inl err
        \<longrightarrow> fst (GroupHandler_CreateGroup L c k w) = JSON StatusInternalServerError (H_error (Error_of err)))
   \<and> (\<forall>err. fst (ListGroupsWithUsers L k w) = Inl err
        \<longrightarrow> fst (GroupHandler_ListGroupsWithUsers L c k w) = JSON StatusInternalServerError (H_error (Error_of err)))
   \<and> (\<forall>err. fst (GetGroup L (Param c ''id'') k w) = Inl err
        \<longrightarrow> fst (GroupHandler_GetGroup L c k w) = JSON StatusNotFound (H_error (Error_of err)))
   \<and> (\<forall>err. ShouldBindJSON_Group L (RequestBody c) = Inl err
        \<longrightarrow> fst (GroupHandler_UpdateGroup L c k w) = JSON StatusBadRequest (H_error (Error_of err)))
   \<and> (\<forall>grp err. ShouldBindJSON_Group L (RequestBody c) = Inr grp \<and> fst (UpdateGroup L (Param c ''id'') grp k w) = Inl err
        \<longrightarrow> fst (GroupHandler_UpdateGroup L c k w) = JSON StatusInternalServerError (H_error (Error_of err)))
   \<and> (\<forall>err. fst (DeleteGroup L (Param c ''id'') k w) = Some err
        \<longrightarrow> fst (GroupHandler_DeleteGroup L c k w) = JSON StatusInternalServerError (H_error (Error_of err)))
   \<and> (\<forall>err. fst (ListUserGroups L (Param c ''id'') k w) = Inl err
        \<longrightarrow> fst (MembershipHandler_ListUserGroups L c k w) = JSON StatusInternalServerError (H_error (Error_of err)))
   \<and> (\<forall>err. fst (AddUserToGroup L (Param c ''id'') (Param c ''groupId'') k w) = Some err
        \<longrightarrow> fst (MembershipHandler_AddUserToGroup L c k w) = JSON StatusInternalServerError (H_error (Error_of err)))
   \<and> (\<forall>err. fst (RemoveUserFromGroup L (Param c ''id'') (Param c ''groupId'') k w) = Some err
        \<longrightarrow> fst (MembershipHandler_RemoveUserFromGroup L c k w) = JSON StatusInternalServerError (H_error (Error_of err)))
   \<and> (\<forall>err. fst (ListGroupUsers L (Param c ''id'') k w) = Inl err
        \<longrightarrow> fst (MembershipHandler_ListGroupUsers L c k w) = JSON StatusInternalServerError (H_error (Error_of err)))
   \<and> (Param c ''email'' = [] \<or> Param c ''groupId'' = [] \<longrightarrow>
        fst (MembershipHandler_AddUserToGroupByEmail L c k w)
          = JSON StatusBadRequest (H_error (Text ''email and groupId are required'')))
   \<and> (\<forall>err. Param c ''email'' \<noteq> [] \<and> Param c ''groupId'' \<noteq> []
          \<and> fst (SearchUserByEmail L (Param c ''email'') k w) = Inl err
        \<longrightarrow> fst (MembershipHandler_AddUserToGroupByEmail L c k w) = JSON StatusInternalServerError (H_error (Error_of err)))
   \<and> (Param c ''email'' \<noteq> [] \<and> Param c ''groupId'' \<noteq> []
          \<and> fst (SearchUserByEmail L (Param c ''email'') k w) = Inr []
        \<longrightarrow> fst (MembershipHandler_AddUserToGroupByEmail L c k w)
              = JSON StatusNotFound (H_error (Text ''no user found with the provided email'')))
   \<and> (\<forall>users. Param c ''email'' \<noteq> [] \<and> Param c ''groupId'' \<noteq> []
          \<and> fst (SearchUserByEmail L (Param c ''email'') k w) = Inr users \<and> 2 \<le> length users
        \<longrightarrow> fst (MembershipHandler_AddUserToGroupByEmail L c k w)
              = JSON StatusBadRequest (H_error (Text ''multiple users found with the provided email'')))
   \<and> (\<forall>u err. Param c ''email'' \<noteq> [] \<and> Param c ''groupId'' \<noteq> []
          \<and> fst (SearchUserByEmail L (Param c ''email'') k w) = Inr [u]
          \<and> fst (AddUserToGroup L (User.ID u) (Param c ''groupId'')
                     (fst (snd (SearchUserByEmail L (Param c ''email'') k w)))
                     (snd (snd (SearchUserByEmail L (Param c ''email'') k w)))) = Some err
        \<longrightarrow> fst (MembershipHandler_AddUserToGroupByEmail L c k w) = JSON StatusInternalServerError (H_error (Error_of err)))"
  by (intro conjI allI impI; (elim conjE)?;
      auto simp: handler_defs Let_def split: prod.splits sum.splits option.splits list.splits)

lemmas boundary_defs = fixture_defs operation_defs handler_defs demo_backend_def
  Param_def Query_def path_context_def one_user_json_def two_users_json_def

theorem handler_error_status_witness:
  "fst (UserHandler_ListUsers (test_lib refused) (path_context []) (test_service refused) fresh_world)
     = JSON 500 (H_error (Error_of
         (url_Error ''Get'' ''http://kc/admin/realms/master/users'' (LibError ''connection refused''))))
   \<and> fst (UserHandler_CreateUser (test_lib refused) (path_context []) (test_service refused) fresh_world)
     = JSON 400 (H_error (Error_of syntax_error))
   \<and> fst (MembershipHandler_AddUserToGroupByEmail (test_lib demo_backend)
            (path_context [(''email'', ''nobody''), (''groupId'', ''A'')])
            (test_service demo_backend) fresh_world)
     = JSON 404 (H_error (Text ''no user found with the provided email''))
   \<and> fst (MembershipHandler_AddUserToGroupByEmail (test_lib demo_backend)
            (path_context [(''email'', ''twins''), (''groupId'', ''A'')])
            (test_service demo_backend) fresh_world)
     = JSON 400 (H_error (Text ''multiple users found with the provided email''))"
proof -
  let ?nobody = "path_context [(''email'', ''nobody''), (''groupId'', ''A'')]"
  let ?twins = "path_context [(''email'', ''twins''), (''groupId'', ''A'')]"
  have a: "fst (ListUsers (test_lib refused) (test_service refused) fresh_world)
             = Inl (url_Error ''Get'' ''http://kc/admin/realms/master/users''
                      (LibError ''connection refused''))"
    by (simp add: fixture_defs ListUsers_def)
  have b: "ShouldBindJSON_User (test_lib refused) (RequestBody (path_context [])) = Inl syntax_error"
    by (simp add: test_lib_def path_context_def render_User_def johndoe_def)
  have p: "Param ?nobody ''email'' = ''nobody''" "Param ?nobody ''groupId'' = ''A''"
          "Param ?twins ''email'' = ''twins''" "Param ?twins ''groupId'' = ''A''"
    by (simp_all add: Param_def path_context_def)
  have c: "fst (SearchUserByEmail (test_lib demo_backend) ''nobody'' (test_service demo_backend) fresh_world)
             = Inr []"
    by (simp add: search_defs)
  have d: "fst (SearchUserByEmail (test_lib demo_backend) ''twins'' (test_service demo_backend) fresh_world)
             = Inr [alice, alice2]"
    by (simp add: search_defs)
  show ?thesis
    using handler_error_status [of "test_lib refused" "test_service refused" fresh_world "path_context []"]
          handler_error_status [of "test_lib demo_backend" "test_service demo_backend" fresh_world ?nobody]
          handler_error_status [of "test_lib demo_backend" "test_service demo_backend" fresh_world ?twins]
          a b c d p
    by simp
qed

text \<open>
  With no backend listening, the get-user handler replies 404; with a backend that answers
  500, so does the get-group handler.
\<close>

theorem handler_get_status_counterexample:
  "fst (UserHandler_GetUser (test_lib refused) (path_context [(''id'', ''42'')])
          (test_service refused) fresh_world)
     = JSON 404 (H_error (Error_of
         (url_Error ''Get'' ''http://kc/admin/realms/master/users/42'' (LibError ''connection refused''))))
   \<and> demo_backend [] (get_request ''/groups/Z'') = answer 500 error_json
   \<and> fst (GroupHandler_GetGroup (test_lib demo_backend) (path_context [(''id'', ''Z'')])
          (test_service demo_backend) fresh_world)
     = JSON 404 (H_error (Error_of (Errorf ''group not found, status: %d'' [ArgInt 500])))"
  by (simp add: boundary_defs get_request_def)

end
